theory Spec2Isabelle
  imports Complex_Main "HOL-Library.Word"
begin

section \<open>Data model\<close>

text \<open>
  JavaScript numbers are modelled as mathematical reals, millisecond clock readings
  (\<^verbatim>\<open>Date.now()\<close>) as integers, array lengths and indices as naturals. The
  coordinates of a map point, and what is computed from them, are of the type
  \<open>number\<close> below, which adds the three values of a JavaScript number that are no
  real number.
  Fields are prefixed with their interface's name, since several interfaces of the
  source share the field names \<^verbatim>\<open>x\<close>, \<^verbatim>\<open>y\<close>, \<^verbatim>\<open>confidence\<close>.
\<close>

record BBox =
  bbox_x :: real
  bbox_y :: real
  bbox_width :: real
  bbox_height :: real

record Center =
  center_x :: real
  center_y :: real

text \<open>\<^verbatim>\<open>DetectedObject\<close> of ai-models (declared in the tail of mapping-algorithms.ts).\<close>

record DetectedObject =
  obj_id :: string
  obj_label :: string
  obj_confidence :: real
  obj_bbox :: BBox
  obj_center :: Center
  obj_area :: real
  obj_timestamp :: int

record DepthPoint =
  dp_x :: real
  dp_y :: real
  dp_depth :: real
  dp_confidence :: real

section \<open>Numbers that need not be finite\<close>

text \<open>
  A JavaScript number is a finite number, plus or minus infinity, or NaN. The
  operations below are those of the source on such numbers, without rounding and
  without overflow on the finite ones: a sum of opposite infinities and a product of
  an infinity with zero are NaN, NaN propagates, and every comparison with NaN is
  false.
\<close>

datatype number = Fin real | PosInf | NegInf | NaN

fun numNeg :: "number \<Rightarrow> number" where
  "numNeg (Fin a) = Fin (- a)"
| "numNeg PosInf = NegInf"
| "numNeg NegInf = PosInf"
| "numNeg NaN = NaN"

fun numAdd :: "number \<Rightarrow> number \<Rightarrow> number" where
  "numAdd (Fin a) (Fin b) = Fin (a + b)"
| "numAdd (Fin a) PosInf = PosInf"
| "numAdd (Fin a) NegInf = NegInf"
| "numAdd (Fin a) NaN = NaN"
| "numAdd PosInf (Fin b) = PosInf"
| "numAdd PosInf PosInf = PosInf"
| "numAdd PosInf NegInf = NaN"
| "numAdd PosInf NaN = NaN"
| "numAdd NegInf (Fin b) = NegInf"
| "numAdd NegInf PosInf = NaN"
| "numAdd NegInf NegInf = NegInf"
| "numAdd NegInf NaN = NaN"
| "numAdd NaN b = NaN"

definition numSub :: "number \<Rightarrow> number \<Rightarrow> number" where
  "numSub a b = numAdd a (numNeg b)"

fun numMul :: "number \<Rightarrow> number \<Rightarrow> number" where
  "numMul (Fin a) (Fin b) = Fin (a * b)"
| "numMul (Fin a) PosInf = (if a = 0 then NaN else if 0 < a then PosInf else NegInf)"
| "numMul (Fin a) NegInf = (if a = 0 then NaN else if 0 < a then NegInf else PosInf)"
| "numMul (Fin a) NaN = NaN"
| "numMul PosInf (Fin b) = (if b = 0 then NaN else if 0 < b then PosInf else NegInf)"
| "numMul PosInf PosInf = PosInf"
| "numMul PosInf NegInf = NegInf"
| "numMul PosInf NaN = NaN"
| "numMul NegInf (Fin b) = (if b = 0 then NaN else if 0 < b then NegInf else PosInf)"
| "numMul NegInf PosInf = NegInf"
| "numMul NegInf NegInf = PosInf"
| "numMul NegInf NaN = NaN"
| "numMul NaN b = NaN"

text \<open>\<^verbatim>\<open>Math.pow(d, 2)\<close>\<close>

definition numSquare :: "number \<Rightarrow> number" where
  "numSquare d = numMul d d"

text \<open>\<^verbatim>\<open>Math.sqrt\<close>\<close>

fun numSqrt :: "number \<Rightarrow> number" where
  "numSqrt (Fin a) = (if a < 0 then NaN else Fin (sqrt a))"
| "numSqrt PosInf = PosInf"
| "numSqrt NegInf = NaN"
| "numSqrt NaN = NaN"

text \<open>The comparison \<^verbatim>\<open>a < b\<close>; \<^verbatim>\<open>a > b\<close> is \<open>numLess b a\<close>.\<close>

fun numLess :: "number \<Rightarrow> number \<Rightarrow> bool" where
  "numLess (Fin a) (Fin b) = (a < b)"
| "numLess (Fin a) PosInf = True"
| "numLess NegInf (Fin b) = True"
| "numLess NegInf PosInf = True"
| "numLess a b = False"

text \<open>
  \<^verbatim>\<open>Math.min(...xs)\<close> and \<^verbatim>\<open>Math.max(...xs)\<close>: NaN when an argument is NaN, else the
  least or greatest argument; plus or minus infinity for no argument.
\<close>

definition numMin :: "number \<Rightarrow> number \<Rightarrow> number" where
  "numMin a b = (if a = NaN \<or> b = NaN then NaN else if numLess b a then b else a)"

definition numMax :: "number \<Rightarrow> number \<Rightarrow> number" where
  "numMax a b = (if a = NaN \<or> b = NaN then NaN else if numLess a b then b else a)"

definition numMinList :: "number list \<Rightarrow> number" where
  "numMinList xs = foldl numMin PosInf xs"

definition numMaxList :: "number list \<Rightarrow> number" where
  "numMaxList xs = foldl numMax NegInf xs"

text \<open>
  The quotient of a number by the length of an array. For an empty array the
  divisor is zero: the quotient is NaN for zero and an infinity of the dividend's sign
  else.
\<close>

fun numDivLength :: "number \<Rightarrow> nat \<Rightarrow> number" where
  "numDivLength (Fin a) n =
     (if n = 0 then (if a = 0 then NaN else if 0 < a then PosInf else NegInf)
      else Fin (a / real n))"
| "numDivLength PosInf n = PosInf"
| "numDivLength NegInf n = NegInf"
| "numDivLength NaN n = NaN"

type_synonym num3 = "number \<times> number \<times> number"

section \<open>Object tracker (use-ai-detection.ts, trackObjects)\<close>

text \<open>The \<^verbatim>\<open>distance\<close> computed inside the callback of \<^verbatim>\<open>previousObjects.find\<close>.\<close>

definition centerDistance :: "DetectedObject \<Rightarrow> DetectedObject \<Rightarrow> real" where
  "centerDistance newObj oldObj =
     sqrt ((center_x (obj_center newObj) - center_x (obj_center oldObj))\<^sup>2 +
           (center_y (obj_center newObj) - center_y (obj_center oldObj))\<^sup>2)"

text \<open>The callback of \<^verbatim>\<open>find\<close>: same label and distance below 100 pixels.\<close>

definition similar :: "DetectedObject \<Rightarrow> DetectedObject \<Rightarrow> bool" where
  "similar newObj oldObj =
     (obj_label oldObj = obj_label newObj \<and> centerDistance newObj oldObj < 100)"

text \<open>
  The \<^verbatim>\<open>for (const newObj of newObjects)\<close> loop; \<open>trackedObjects\<close> is the array
  the loop pushes to. \<^verbatim>\<open>Array.prototype.find\<close> returns the first element, in array
  order, that satisfies the callback, as \<^const>\<open>List.find\<close> does.
\<close>

fun trackLoop ::
  "DetectedObject list \<Rightarrow> DetectedObject list \<Rightarrow> DetectedObject list \<Rightarrow> DetectedObject list"
where
  "trackLoop previousObjects [] trackedObjects = trackedObjects"
| "trackLoop previousObjects (newObj # rest) trackedObjects =
     (case List.find (similar newObj) previousObjects of
        Some similarObj \<Rightarrow>
          trackLoop previousObjects rest
            (trackedObjects @ [newObj\<lparr>obj_id := obj_id similarObj\<rparr>])
      | None \<Rightarrow> trackLoop previousObjects rest (trackedObjects @ [newObj]))"

definition trackObjects ::
  "bool \<Rightarrow> DetectedObject list \<Rightarrow> DetectedObject list \<Rightarrow> DetectedObject list"
where
  "trackObjects enableTracking newObjects previousObjects =
     (if \<not> enableTracking \<or> length previousObjects = 0 then newObjects
      else trackLoop previousObjects newObjects [])"

text \<open>Objects used as concrete inputs: identity, label and center are given,
  the bounding box is the 20 by 20 square around the center.\<close>

definition mkObject :: "string \<Rightarrow> string \<Rightarrow> real \<Rightarrow> real \<Rightarrow> DetectedObject" where
  "mkObject i l cx cy =
     \<lparr>obj_id = i, obj_label = l, obj_confidence = 0.9,
      obj_bbox = \<lparr>bbox_x = cx - 10, bbox_y = cy - 10, bbox_width = 20, bbox_height = 20\<rparr>,
      obj_center = \<lparr>center_x = cx, center_y = cy\<rparr>, obj_area = 400, obj_timestamp = 0\<rparr>"

section \<open>Morphology analyzer (3d-analysis.ts, Analysis3D; the same code is in AIProcessor)\<close>













definition mkDepthPoint :: "real \<Rightarrow> real \<Rightarrow> real \<Rightarrow> DepthPoint" where
  "mkDepthPoint x y d = \<lparr>dp_x = x, dp_y = y, dp_depth = d, dp_confidence = 0.8\<rparr>"

section \<open>Frames (ImageData)\<close>

text \<open>
  An \<^verbatim>\<open>ImageData\<close>: width, height and the \<^verbatim>\<open>Uint8ClampedArray\<close> of its channels,
  four bytes (red, green, blue, alpha) per pixel in row-major order. The constructor
  of \<^verbatim>\<open>ImageData\<close> accepts only positive dimensions and an array of exactly
  \<open>4 * width * height\<close> bytes; \<open>wf_frame\<close> states this.
\<close>

record ImageData =
  img_width :: nat
  img_height :: nat
  img_data :: "8 word list"

definition wf_frame :: "ImageData \<Rightarrow> bool" where
  "wf_frame f =
     (0 < img_width f \<and> 0 < img_height f \<and>
      length (img_data f) = 4 * img_width f * img_height f)"

section \<open>Spatial mapping engine (mapping-algorithms.ts, SLAMProcessor)\<close>

type_synonym vec3 = "real \<times> real \<times> real"

record MapPoint3D =
  mp_x :: number
  mp_y :: number
  mp_z :: number
  mp_color :: vec3
  mp_confidence :: real
  mp_timestamp :: int

record Landmark =
  lm_id :: string
  lm_position :: num3
  lm_type :: string
  lm_confidence :: real
  lm_description :: string
  lm_features :: "number list"

record TrajectoryPoint =
  tp_position :: vec3
  tp_timestamp :: int
  tp_confidence :: real

record Trajectory =
  tr_points :: "TrajectoryPoint list"
  tr_totalDistance :: real
  tr_averageSpeed :: real

text \<open>The private fields of the class.\<close>

record SLAMProcessor =
  mapPoints :: "MapPoint3D list"
  landmarks :: "Landmark list"
  trajectory :: Trajectory
  lastPosition :: vec3

text \<open>
  What one call of \<^verbatim>\<open>processFrame\<close> reads from outside the program: the clock
  (\<^verbatim>\<open>Date.now()\<close>, once per place and loop round of the source), the random numbers
  (\<^verbatim>\<open>Math.random()\<close>, in \<open>[0, 1)\<close>) and the platform's number formatting.
\<close>

record Env =
  env_motionTime :: int
  env_trajectoryTime :: int
  env_trajectoryRandom :: real
  env_pointTime :: "nat \<Rightarrow> int"
  env_landmarkId :: "nat \<Rightarrow> string"
  env_landmarkTypeRandom :: "nat \<Rightarrow> real"
  env_landmarkConfidenceRandom :: "nat \<Rightarrow> real"
  env_optimizeTime :: int
  env_showNumber :: "nat \<Rightarrow> string"
  env_toFixed2 :: "number \<Rightarrow> string"

definition initialProcessor :: SLAMProcessor where
  "initialProcessor =
     \<lparr>mapPoints = [], landmarks = [],
      trajectory = \<lparr>tr_points = [], tr_totalDistance = 0, tr_averageSpeed = 0\<rparr>,
      lastPosition = (0, 0, 0)\<rparr>"

definition estimateCameraMovement :: "Env \<Rightarrow> vec3 option \<Rightarrow> vec3" where
  "estimateCameraMovement env motionVector =
     (case motionVector of
        Some (x, y, z) \<Rightarrow> (x * 0.01, y * 0.01, z * 0.01)
      | None \<Rightarrow>
          let time = real_of_int (env_motionTime env)
          in (sin (time * 0.001) * 0.02, cos (time * 0.0015) * 0.01, sin (time * 0.0008) * 0.03))"

text \<open>\<^verbatim>\<open>push\<close> appends the sample; \<^verbatim>\<open>shift\<close> removes the first (oldest) one.\<close>

definition updateTrajectory :: "Env \<Rightarrow> vec3 \<Rightarrow> SLAMProcessor \<Rightarrow> SLAMProcessor" where
  "updateTrajectory env movement s =
     (case (lastPosition s, movement) of ((lx, ly, lz), (mx, my, mz)) \<Rightarrow>
        let newPosition = (lx + mx, ly + my, lz + mz);
            distance = sqrt (mx\<^sup>2 + my\<^sup>2 + mz\<^sup>2);
            pushed = tr_points (trajectory s) @
                       [\<lparr>tp_position = newPosition,
                         tp_timestamp = env_trajectoryTime env,
                         tp_confidence = 0.8 + env_trajectoryRandom env * 0.2\<rparr>];
            totalDistance = tr_totalDistance (trajectory s) + distance;
            points = (if length pushed > 1000 then tl pushed else pushed)
        in s\<lparr>trajectory := (trajectory s)\<lparr>tr_points := points, tr_totalDistance := totalDistance\<rparr>,
              lastPosition := newPosition\<rparr>)"

text \<open>
  \<^verbatim>\<open>data[pixelIndex] || 0\<close>: the channel value, or 0 when the index is no index of
  the array (negative, fractional or past the end).
\<close>

definition readChannel :: "8 word list \<Rightarrow> real \<Rightarrow> real" where
  "readChannel data pixelIndex =
     (if 0 \<le> pixelIndex \<and> pixelIndex = of_int \<lfloor>pixelIndex\<rfloor> \<and> nat \<lfloor>pixelIndex\<rfloor> < length data
      then real (unat (data ! nat \<lfloor>pixelIndex\<rfloor>)) else 0)"

definition convertDepthTo3D ::
  "Env \<Rightarrow> DepthPoint list \<Rightarrow> ImageData \<Rightarrow> SLAMProcessor \<Rightarrow> MapPoint3D list"
where
  "convertDepthTo3D env depthPoints imageData s =
     (case lastPosition s of (lx, ly, lz) \<Rightarrow>
        let width = real (img_width imageData);
            height = real (img_height imageData);
            data = img_data imageData;
            focalLength = width * 0.5
        in map (\<lambda>k.
                  let depthPoint = depthPoints ! k;
                      x_cam = (dp_x depthPoint - width / 2) / focalLength * dp_depth depthPoint;
                      y_cam = (height / 2 - dp_y depthPoint) / focalLength * dp_depth depthPoint;
                      z_cam = dp_depth depthPoint;
                      pixelIndex = (dp_y depthPoint * width + dp_x depthPoint) * 4
                  in \<lparr>mp_x = Fin (lx + x_cam), mp_y = Fin (ly + y_cam), mp_z = Fin (lz + z_cam),
                      mp_color = (readChannel data pixelIndex,
                                  readChannel data (pixelIndex + 1),
                                  readChannel data (pixelIndex + 2)),
                      mp_confidence = dp_confidence depthPoint,
                      mp_timestamp = env_pointTime env k\<rparr>)
               [0..<length depthPoints])"

definition euclideanDistance3D :: "MapPoint3D \<Rightarrow> MapPoint3D \<Rightarrow> number" where
  "euclideanDistance3D a b =
     numSqrt (numAdd (numAdd (numSquare (numSub (mp_x a) (mp_x b)))
                             (numSquare (numSub (mp_y a) (mp_y b))))
                     (numSquare (numSub (mp_z a) (mp_z b))))"

text \<open>
  \<^verbatim>\<open>addPointsToMap\<close>. The source's \<^verbatim>\<open>filter\<close>, \<^verbatim>\<open>reduce\<close> and \<^verbatim>\<open>indexOf\<close> handle
  references to the point objects held by the map array, and the array holds each
  object at one position; an existing point is therefore modelled by its position in
  the array. \<open>nearbyPoints\<close> are the positions that pass the filter, in array order;
  \<^verbatim>\<open>reduce\<close> without an initial value starts from the first of them and keeps \<open>a\<close>
  only when its confidence is strictly greater.
\<close>

definition nearbyPoints :: "MapPoint3D \<Rightarrow> MapPoint3D list \<Rightarrow> nat list" where
  "nearbyPoints point mps =
     filter (\<lambda>existing. numLess (euclideanDistance3D point (mps ! existing)) (Fin 0.05))
       [0..<length mps]"

definition bestExisting :: "MapPoint3D list \<Rightarrow> nat list \<Rightarrow> nat" where
  "bestExisting mps nearby =
     foldl (\<lambda>a b. if mp_confidence (mps ! a) > mp_confidence (mps ! b) then a else b)
       (hd nearby) (tl nearby)"

definition addPoint :: "MapPoint3D list \<Rightarrow> MapPoint3D \<Rightarrow> MapPoint3D list" where
  "addPoint mps point =
     (let nearby = nearbyPoints point mps
      in if length nearby = 0 then mps @ [point]
         else let index = bestExisting mps nearby
              in if mp_confidence point > mp_confidence (mps ! index)
                 then mps[index := point] else mps)"

definition addPointsToMap :: "MapPoint3D list \<Rightarrow> MapPoint3D list \<Rightarrow> MapPoint3D list" where
  "addPointsToMap mps newPoints = foldl addPoint mps newPoints"



definition mkPoint :: "real \<Rightarrow> real \<Rightarrow> real \<Rightarrow> real \<Rightarrow> int \<Rightarrow> MapPoint3D" where
  "mkPoint x y z c t =
     \<lparr>mp_x = Fin x, mp_y = Fin y, mp_z = Fin z, mp_color = (0, 0, 0), mp_confidence = c,
      mp_timestamp = t\<rparr>"

text \<open>\<^verbatim>\<open>Number.isFinite\<close>, and a point whose three coordinates are finite.\<close>

fun isFinite :: "number \<Rightarrow> bool" where
  "isFinite (Fin a) = True"
| "isFinite PosInf = False"
| "isFinite NegInf = False"
| "isFinite NaN = False"

definition finitePoint :: "MapPoint3D \<Rightarrow> bool" where
  "finitePoint p = (isFinite (mp_x p) \<and> isFinite (mp_y p) \<and> isFinite (mp_z p))"

subsection \<open>Landmark detection\<close>

text \<open>
  \<^verbatim>\<open>clusterPoints\<close> and \<^verbatim>\<open>expandCluster\<close> work on the array of the frame's new
  points; \<open>visited\<close> is a \<^verbatim>\<open>Set\<close> of object references. Every new point is a fresh
  object, held once by the array, so a point is again its position in the array and
  a cluster is a list of positions (translated to the points when the loops are done).
  \<open>neighbors\<close> is computed once, before the loop over it: a neighbour absorbed
  meanwhile as somebody's sub-neighbour is pushed a second time, as in the source.
\<close>

definition expandCluster ::
  "nat \<Rightarrow> MapPoint3D list \<Rightarrow> real \<Rightarrow> nat set \<Rightarrow> nat list \<times> nat set"
where
  "expandCluster point points threshold visited0 =
     (let cluster0 = [point];
          visited1 = insert point visited0;
          neighbors =
            filter (\<lambda>p. p \<notin> visited1 \<and>
                         numLess (euclideanDistance3D (points ! point) (points ! p))
                                 (Fin threshold))
                   [0..<length points]
      in foldl
           (\<lambda>(cluster, visited) neighbor.
              let visited2 = insert neighbor visited;
                  cluster2 = cluster @ [neighbor];
                  subNeighbors =
                    filter (\<lambda>p. p \<notin> visited2 \<and>
                                 numLess (euclideanDistance3D (points ! neighbor) (points ! p))
                                         (Fin threshold))
                           [0..<length points]
              in foldl
                   (\<lambda>(cluster, visited) subNeighbor.
                      if subNeighbor \<notin> visited
                      then (cluster @ [subNeighbor], insert subNeighbor visited)
                      else (cluster, visited))
                   (cluster2, visited2) (take 3 subNeighbors))
           (cluster0, visited1) neighbors)"

definition clusterPoints :: "MapPoint3D list \<Rightarrow> MapPoint3D list list" where
  "clusterPoints points =
     (let threshold = 0.1;
          (clusters, visited) =
            foldl
              (\<lambda>(clusters, visited) point.
                 if point \<in> visited then (clusters, visited)
                 else let (cluster, visited') = expandCluster point points threshold visited
                      in (if length cluster > 5 then clusters @ [cluster] else clusters, visited'))
              ([], {}) [0..<length points]
      in map (map (\<lambda>i. points ! i)) clusters)"

definition calculateCentroid :: "MapPoint3D list \<Rightarrow> num3" where
  "calculateCentroid points =
     (case foldl (\<lambda>(a0, a1, a2) point.
                    (numAdd a0 (mp_x point), numAdd a1 (mp_y point), numAdd a2 (mp_z point)))
             (Fin 0, Fin 0, Fin 0) points of
        (s0, s1, s2) \<Rightarrow>
          (numDivLength s0 (length points), numDivLength s1 (length points),
           numDivLength s2 (length points)))"

text \<open>Colours are finite; this is called on clusters of at least ten points only.\<close>

definition calculateAverageColor :: "MapPoint3D list \<Rightarrow> vec3" where
  "calculateAverageColor points =
     (case foldl (\<lambda>(a0, a1, a2) point.
                    case mp_color point of (c0, c1, c2) \<Rightarrow> (a0 + c0, a1 + c1, a2 + c2))
             (0, 0, 0) points of
        (s0, s1, s2) \<Rightarrow>
          (s0 / real (length points), s1 / real (length points), s2 / real (length points)))"

record Bounds =
  b_minX :: number
  b_maxX :: number
  b_minY :: number
  b_maxY :: number
  b_minZ :: number
  b_maxZ :: number
  b_width :: number
  b_height :: number
  b_depth :: number

definition calculateBounds :: "MapPoint3D list \<Rightarrow> Bounds" where
  "calculateBounds points =
     (let xs = map mp_x points; ys = map mp_y points; zs = map mp_z points
      in \<lparr>b_minX = numMinList xs, b_maxX = numMaxList xs,
          b_minY = numMinList ys, b_maxY = numMaxList ys,
          b_minZ = numMinList zs, b_maxZ = numMaxList zs,
          b_width = numSub (numMaxList xs) (numMinList xs),
          b_height = numSub (numMaxList ys) (numMinList ys),
          b_depth = numSub (numMaxList zs) (numMinList zs)\<rparr>)"

text \<open>The fourth type is the UTF-8 encoding of the source's literal (superf, i with
  acute, cie). \<open>r\<close> is the value of \<^verbatim>\<open>Math.random()\<close>, read in the last branch only.\<close>

definition landmarkTypes :: "string list" where
  "landmarkTypes =
     [''parede'', ''canto'', ''objeto'', ''superf'' @ [CHR 0xC3, CHR 0xAD] @ ''cie'', ''estrutura'']"

definition classifyLandmark :: "real \<Rightarrow> MapPoint3D list \<Rightarrow> string" where
  "classifyLandmark r cluster =
     (let bounds = calculateBounds cluster;
          volume = numMul (numMul (b_width bounds) (b_height bounds)) (b_depth bounds)
      in if numLess (b_height bounds) (b_width bounds) \<and> numLess (b_depth bounds) (b_width bounds)
         then ''parede''
         else if numLess volume (Fin 0.01) then ''superf'' @ [CHR 0xC3, CHR 0xAD] @ ''cie''
         else landmarkTypes ! nat \<lfloor>r * real (length landmarkTypes)\<rfloor>)"

definition generateLandmarkDescription :: "Env \<Rightarrow> string \<Rightarrow> MapPoint3D list \<Rightarrow> string" where
  "generateLandmarkDescription env type cluster =
     (let size = length cluster; bounds = calculateBounds cluster
      in type @ '' detectado com '' @ env_showNumber env size @
         '' pontos, dimens'' @ [CHR 0xC3, CHR 0xB5] @ ''es aproximadas: '' @
         env_toFixed2 env (b_width bounds) @ ''m x '' @
         env_toFixed2 env (b_height bounds) @ ''m x '' @
         env_toFixed2 env (b_depth bounds) @ ''m'')"

definition extractLandmarkFeatures :: "MapPoint3D list \<Rightarrow> number list" where
  "extractLandmarkFeatures cluster =
     (let bounds = calculateBounds cluster
      in case (calculateCentroid cluster, calculateAverageColor cluster) of
           ((c0, c1, c2), (a0, a1, a2)) \<Rightarrow>
             [b_width bounds, b_height bounds, b_depth bounds, c0, c1, c2,
              Fin (real (length cluster)), Fin (a0 / 255), Fin (a1 / 255), Fin (a2 / 255)])"

definition euclideanDistance :: "num3 \<Rightarrow> num3 \<Rightarrow> number" where
  "euclideanDistance a b =
     (case (a, b) of ((a0, a1, a2), (b0, b1, b2)) \<Rightarrow>
        numSqrt (numAdd (numAdd (numSquare (numSub a0 b0)) (numSquare (numSub a1 b1)))
                        (numSquare (numSub a2 b2))))"

text \<open>
  One round of the loop over the clusters; \<open>k\<close> is the cluster's position, which
  selects the round's readings of the clock and of the random numbers.
\<close>

definition landmarkStep :: "Env \<Rightarrow> MapPoint3D list list \<Rightarrow> Landmark list \<Rightarrow> nat \<Rightarrow> Landmark list"
where
  "landmarkStep env clusters lms k =
     (let cluster = clusters ! k
      in if length cluster < 10 then lms
         else let centeroid = calculateCentroid cluster;
                  landmarkType = classifyLandmark (env_landmarkTypeRandom env k) cluster
              in case List.find (\<lambda>landmark.
                                numLess (euclideanDistance (lm_position landmark) centeroid) (Fin 0.2))
                        lms of
                   Some existingLandmark \<Rightarrow> lms
                 | None \<Rightarrow>
                     lms @ [\<lparr>lm_id = env_landmarkId env k,
                             lm_position = centeroid,
                             lm_type = landmarkType,
                             lm_confidence = 0.7 + env_landmarkConfidenceRandom env k * 0.3,
                             lm_description = generateLandmarkDescription env landmarkType cluster,
                             lm_features = extractLandmarkFeatures cluster\<rparr>])"

text \<open>
  \<^verbatim>\<open>sort((a, b) => b.confidence - a.confidence)\<close> is a stable sort by descending
  confidence, as \<^const>\<open>sort_key\<close> on the negated confidence is; \<^verbatim>\<open>slice(0, 50)\<close>
  keeps the first 50.
\<close>

definition detectLandmarks :: "Env \<Rightarrow> MapPoint3D list \<Rightarrow> SLAMProcessor \<Rightarrow> SLAMProcessor" where
  "detectLandmarks env points s =
     (let clusters = clusterPoints points;
          lms = foldl (landmarkStep env clusters) (landmarks s) [0..<length clusters]
      in s\<lparr>landmarks := take 50 (sort_key (\<lambda>l. - lm_confidence l) lms)\<rparr>)"

subsection \<open>Pruning, snapshot and the entry point\<close>

definition optimizeMap :: "Env \<Rightarrow> SLAMProcessor \<Rightarrow> SLAMProcessor" where
  "optimizeMap env s =
     (let now = env_optimizeTime env;
          maxAge = 30000;
          kept = filter (\<lambda>point. now - mp_timestamp point < maxAge \<and> mp_confidence point > 0.3)
                   (mapPoints s)
      in s\<lparr>mapPoints :=
             (if length kept > 10000
              then take 10000 (sort_key (\<lambda>p. - mp_confidence p) kept)
              else kept)\<rparr>)"

record MapPointView =
  pv_x :: number
  pv_y :: number
  pv_z :: number
  pv_color :: vec3

record LandmarkView =
  lv_id :: string
  lv_position :: num3
  lv_type :: string
  lv_confidence :: real

record Boundary =
  bd_points :: "num3 list"
  bd_type :: string

record SpatialMap =
  sm_points :: "MapPointView list"
  sm_landmarks :: "LandmarkView list"
  sm_boundaries :: "Boundary list"

definition generateBoundaries :: "SLAMProcessor \<Rightarrow> Boundary list" where
  "generateBoundaries s =
     (case lastPosition s of (lx, ly, lz) \<Rightarrow>
        let floorPoints = take 100 (filter (\<lambda>p. numLess (mp_y p) (Fin (ly - 0.5))) (mapPoints s))
        in if length floorPoints > 10
           then [\<lparr>bd_points = map (\<lambda>p. (mp_x p, mp_y p, mp_z p)) floorPoints, bd_type = ''floor''\<rparr>]
           else [])"

definition getCurrentMap :: "SLAMProcessor \<Rightarrow> SpatialMap" where
  "getCurrentMap s =
     \<lparr>sm_points =
        map (\<lambda>point. \<lparr>pv_x = mp_x point, pv_y = mp_y point, pv_z = mp_z point,
                       pv_color = mp_color point\<rparr>) (mapPoints s),
      sm_landmarks =
        map (\<lambda>landmark. \<lparr>lv_id = lm_id landmark, lv_position = lm_position landmark,
                          lv_type = lm_type landmark, lv_confidence = lm_confidence landmark\<rparr>)
            (landmarks s),
      sm_boundaries = generateBoundaries s\<rparr>"

text \<open>\<^verbatim>\<open>processFrame\<close>: the new state of the processor and the snapshot it returns.
  No statement on this path throws.\<close>

definition processFrame ::
  "Env \<Rightarrow> ImageData \<Rightarrow> DepthPoint list \<Rightarrow> vec3 option \<Rightarrow> SLAMProcessor
     \<Rightarrow> SLAMProcessor \<times> SpatialMap"
where
  "processFrame env imageData depthPoints motionVector s =
     (let cameraMovement = estimateCameraMovement env motionVector;
          s1 = updateTrajectory env cameraMovement s;
          new3DPoints = convertDepthTo3D env depthPoints imageData s1;
          s2 = s1\<lparr>mapPoints := addPointsToMap (mapPoints s1) new3DPoints\<rparr>;
          s3 = detectLandmarks env new3DPoints s2;
          s4 = optimizeMap env s3
      in (s4, getCurrentMap s4))"

definition resetMap :: "SLAMProcessor \<Rightarrow> SLAMProcessor" where
  "resetMap s =
     s\<lparr>mapPoints := [], landmarks := [],
       trajectory := \<lparr>tr_points = [], tr_totalDistance = 0, tr_averageSpeed = 0\<rparr>,
       lastPosition := (0, 0, 0)\<rparr>"

text \<open>
  The states a processor can be in: the fields are private, the constructor gives
  \<open>initialProcessor\<close>, and only \<^verbatim>\<open>processFrame\<close> and \<^verbatim>\<open>resetMap\<close> write them.
\<close>

inductive reachable :: "SLAMProcessor \<Rightarrow> bool" where
  constructed: "reachable initialProcessor"
| processed: "reachable s \<Longrightarrow> reachable (fst (processFrame env imageData depthPoints motionVector s))"
| reset: "reachable s \<Longrightarrow> reachable (resetMap s)"

text \<open>Concrete inputs: an environment whose clock reads \<open>t\<close> everywhere, and a frame of
  one black opaque pixel.\<close>

definition mkEnv :: "int \<Rightarrow> Env" where
  "mkEnv t =
     \<lparr>env_motionTime = t, env_trajectoryTime = t, env_trajectoryRandom = 0.5,
      env_pointTime = (\<lambda>k. t), env_landmarkId = (\<lambda>k. ''landmark''),
      env_landmarkTypeRandom = (\<lambda>k. 0.5), env_landmarkConfidenceRandom = (\<lambda>k. 0.5),
      env_optimizeTime = t, env_showNumber = (\<lambda>n. ''n''), env_toFixed2 = (\<lambda>r. ''r'')\<rparr>"

definition onePixel :: ImageData where
  "onePixel = \<lparr>img_width = 1, img_height = 1, img_data = [0, 0, 0, 255]\<rparr>"

text \<open>What every reachable processor satisfies (shown below).\<close>

definition invariant :: "SLAMProcessor \<Rightarrow> bool" where
  "invariant s =
     (length (mapPoints s) \<le> 10000 \<and> list_all (\<lambda>p. mp_confidence p > 0.3) (mapPoints s) \<and>
      length (landmarks s) \<le> 50 \<and> sorted (map (\<lambda>l. - lm_confidence l) (landmarks s)) \<and>
      length (tr_points (trajectory s)) \<le> 1000)"

text \<open>The processor after one frame, read at time 0, with a single depth sample.\<close>

definition stateWithPoint :: SLAMProcessor where
  "stateWithPoint =
     fst (processFrame (mkEnv 0) onePixel [mkDepthPoint 0 0 0.5] (Some (0, 0, 0)) initialProcessor)"

section \<open>Frame enhancer (3d-analysis.ts, ImageProcessor and enhanceNightVision)\<close>

text \<open>
  A store of a number into a \<^verbatim>\<open>Uint8ClampedArray\<close>: clamped to \<open>[0, 255]\<close> and
  rounded to the nearest integer, a tie going to the even one. A store at an index
  past the end is ignored, as \<open>xs[i := v]\<close> is.
\<close>

definition toUint8Clamp :: "real \<Rightarrow> 8 word" where
  "toUint8Clamp v =
     (if v \<le> 0 then 0
      else if v \<ge> 255 then 255
      else let f = \<lfloor>v\<rfloor>
           in word_of_int (if v - of_int f < 1 / 2 then f
                           else if v - of_int f > 1 / 2 then f + 1
                           else if even f then f else f + 1))"

text \<open>A channel read as a number.\<close>

definition chan :: "8 word list \<Rightarrow> nat \<Rightarrow> real" where
  "chan data i = real (unat (data ! i))"

text \<open>The values of \<open>i\<close> in \<^verbatim>\<open>for (let i = 0; i < data.length; i += 4)\<close>.\<close>

definition pixelStarts :: "nat \<Rightarrow> nat list" where
  "pixelStarts n = map (\<lambda>k. 4 * k) [0..<(n + 3) div 4]"

text \<open>The pairs \<open>(y, x)\<close> visited by
  \<^verbatim>\<open>for (let y = 1; y < height - 1; y++) for (let x = 1; x < width - 1; x++)\<close>, in order.\<close>

definition interior :: "nat \<Rightarrow> nat \<Rightarrow> (nat \<times> nat) list" where
  "interior width height = concat (map (\<lambda>y. map (\<lambda>x. (y, x)) [1..<width - 1]) [1..<height - 1])"

text \<open>The pairs \<open>(ky + 1, kx + 1)\<close> of the two kernel loops, \<open>ky\<close> and \<open>kx\<close> from -1 to 1.\<close>

definition kernelOffsets :: "(nat \<times> nat) list" where
  "kernelOffsets = concat (map (\<lambda>dy. map (\<lambda>dx. (dy, dx)) [0..<3]) [0..<3])"

definition adjustBrightness :: "ImageData \<Rightarrow> real \<Rightarrow> ImageData" where
  "adjustBrightness imageData factor =
     (let data =
            foldl (\<lambda>data i.
                     data[i := toUint8Clamp (min 255 (chan data i * factor)),
                          i + 1 := toUint8Clamp (min 255 (chan data (i + 1) * factor)),
                          i + 2 := toUint8Clamp (min 255 (chan data (i + 2) * factor))])
                  (img_data imageData) (pixelStarts (length (img_data imageData)))
      in \<lparr>img_width = img_width imageData, img_height = img_height imageData, img_data = data\<rparr>)"

text \<open>
  One channel of \<^verbatim>\<open>adjustContrast\<close>. When \<open>255 * (259 - contrast)\<close> is zero the
  source's \<open>factorContrast\<close> is plus infinity: the channel saturates to 255 above 128
  and to 0 below, and at 128 the product is NaN, which is stored as 0.
\<close>

definition contrastChannel :: "real \<Rightarrow> real \<Rightarrow> real" where
  "contrastChannel factor d =
     (let contrast = (factor - 1) * 255
      in if 255 * (259 - contrast) = 0 then (if d > 128 then 255 else 0)
         else let factorContrast = (259 * (contrast + 255)) / (255 * (259 - contrast))
              in max 0 (min 255 (factorContrast * (d - 128) + 128)))"

definition adjustContrast :: "ImageData \<Rightarrow> real \<Rightarrow> ImageData" where
  "adjustContrast imageData factor =
     (let data =
            foldl (\<lambda>data i.
                     data[i := toUint8Clamp (contrastChannel factor (chan data i)),
                          i + 1 := toUint8Clamp (contrastChannel factor (chan data (i + 1))),
                          i + 2 := toUint8Clamp (contrastChannel factor (chan data (i + 2)))])
                  (img_data imageData) (pixelStarts (length (img_data imageData)))
      in \<lparr>img_width = img_width imageData, img_height = img_height imageData, img_data = data\<rparr>)"

text \<open>
  One channel of \<^verbatim>\<open>adjustGamma\<close>: \<^verbatim>\<open>Math.min(255, 255 * Math.pow(d / 255, 1 / gamma))\<close>,
  for a channel value \<open>d\<close> between 0 and 255. \<^verbatim>\<open>Math.pow\<close> is \<open>powr\<close> for a positive
  exponent. For \<open>gamma = 0\<close> the exponent is infinite and the result is 0 or NaN, stored
  as 0; for a negative \<open>gamma\<close> the power of 0 is infinite and the minimum is 255.
\<close>

definition gammaChannel :: "real \<Rightarrow> real \<Rightarrow> real" where
  "gammaChannel gamma d =
     (if gamma = 0 then 0
      else if gamma < 0 \<and> d = 0 then 255
      else let gammaCorrection = 1 / gamma
           in min 255 (255 * (d / 255) powr gammaCorrection))"

definition adjustGamma :: "ImageData \<Rightarrow> real \<Rightarrow> ImageData" where
  "adjustGamma imageData gamma =
     (let data =
            foldl (\<lambda>data i.
                     data[i := toUint8Clamp (gammaChannel gamma (chan data i)),
                          i + 1 := toUint8Clamp (gammaChannel gamma (chan data (i + 1))),
                          i + 2 := toUint8Clamp (gammaChannel gamma (chan data (i + 2)))])
                  (img_data imageData) (pixelStarts (length (img_data imageData)))
      in \<lparr>img_width = img_width imageData, img_height = img_height imageData, img_data = data\<rparr>)"

definition denoiseKernel :: "real list list" where
  "denoiseKernel = [[1, 2, 1], [2, 4, 2], [1, 2, 1]]"

text \<open>The loops read \<open>data\<close>, the copy of the input, and write \<open>output\<close>.\<close>

definition denoiseImage :: "ImageData \<Rightarrow> real \<Rightarrow> ImageData" where
  "denoiseImage imageData strength =
     (let width = img_width imageData;
          height = img_height imageData;
          data = img_data imageData;
          kernelWeight = 16;
          output =
            foldl (\<lambda>output (y, x).
                     foldl (\<lambda>output c.
                              let sum = foldl (\<lambda>sum (dy, dx).
                                                 sum + chan data (((y + dy - 1) * width + (x + dx - 1)) * 4 + c)
                                                       * denoiseKernel ! dy ! dx)
                                              0 kernelOffsets;
                                  originalIdx = (y * width + x) * 4 + c;
                                  filtered = sum / kernelWeight
                              in output[originalIdx :=
                                          toUint8Clamp (chan data originalIdx * (1 - strength)
                                                        + filtered * strength)])
                           output [0..<3])
                  data (interior width height)
      in \<lparr>img_width = width, img_height = height, img_data = output\<rparr>)"

definition sobelX :: "real list list" where
  "sobelX = [[-1, 0, 1], [-2, 0, 2], [-1, 0, 1]]"

definition sobelY :: "real list list" where
  "sobelY = [[-1, -2, -1], [0, 0, 0], [1, 2, 1]]"

definition enhanceEdges :: "ImageData \<Rightarrow> real \<Rightarrow> ImageData" where
  "enhanceEdges imageData strength =
     (let width = img_width imageData;
          height = img_height imageData;
          data = img_data imageData;
          output =
            foldl (\<lambda>output (y, x).
                     let (gx, gy) =
                           foldl (\<lambda>(gx, gy) (dy, dx).
                                    let idx = ((y + dy - 1) * width + (x + dx - 1)) * 4;
                                        luminance = 0.299 * chan data idx + 0.587 * chan data (idx + 1)
                                                    + 0.114 * chan data (idx + 2)
                                    in (gx + luminance * sobelX ! dy ! dx,
                                        gy + luminance * sobelY ! dy ! dx))
                                 (0, 0) kernelOffsets;
                         magnitude = sqrt (gx * gx + gy * gy);
                         originalIdx = (y * width + x) * 4
                     in foldl (\<lambda>output c.
                                 output[originalIdx + c :=
                                          toUint8Clamp (min 255 (chan data (originalIdx + c)
                                                                 + magnitude * strength))])
                              output [0..<3])
                  data (interior width height)
      in \<lparr>img_width = width, img_height = height, img_data = output\<rparr>)"

text \<open>The three channels written for a pixel of normalized luminance \<open>normalized\<close>.\<close>

definition thermalColor :: "real \<Rightarrow> real \<times> real \<times> real" where
  "thermalColor normalized =
     (if normalized < 0.25
      then (0, of_int \<lfloor>normalized * 4 * 100\<rfloor>, of_int \<lfloor>255 - normalized * 4 * 100\<rfloor>)
      else if normalized < 0.5
      then (0, of_int \<lfloor>255 - (normalized - 0.25) * 4 * 155\<rfloor>,
               of_int \<lfloor>(normalized - 0.25) * 4 * 255\<rfloor>)
      else if normalized < 0.75
      then (of_int \<lfloor>(normalized - 0.5) * 4 * 255\<rfloor>, 255, 0)
      else (255, of_int \<lfloor>255 - (normalized - 0.75) * 4 * 255\<rfloor>, 0))"

definition applyThermalEffect :: "ImageData \<Rightarrow> ImageData" where
  "applyThermalEffect imageData =
     (let data =
            foldl (\<lambda>data i.
                     let gray = 0.299 * chan data i + 0.587 * chan data (i + 1)
                                + 0.114 * chan data (i + 2);
                         normalized = gray / 255
                     in case thermalColor normalized of
                          (r, g, b) \<Rightarrow>
                            data[i := toUint8Clamp r, i + 1 := toUint8Clamp g,
                                 i + 2 := toUint8Clamp b])
                  (img_data imageData) (pixelStarts (length (img_data imageData)))
      in \<lparr>img_width = img_width imageData, img_height = img_height imageData, img_data = data\<rparr>)"

record NightVisionEnhancement =
  nv_brightness :: real
  nv_contrast :: real
  nv_gamma :: real
  nv_noiseReduction :: real
  nv_edgeEnhancement :: real

text \<open>\<^verbatim>\<open>Partial<NightVisionEnhancement>\<close>: a key that is absent is \<open>None\<close>.\<close>

record PartialNightVisionEnhancement =
  pnv_brightness :: "real option"
  pnv_contrast :: "real option"
  pnv_gamma :: "real option"
  pnv_noiseReduction :: "real option"
  pnv_edgeEnhancement :: "real option"

definition defaultSettings :: NightVisionEnhancement where
  "defaultSettings =
     \<lparr>nv_brightness = 1.5, nv_contrast = 1.3, nv_gamma = 0.7,
      nv_noiseReduction = 0.8, nv_edgeEnhancement = 0.4\<rparr>"

text \<open>\<^verbatim>\<open>{ ...defaultSettings, ...settings }\<close>\<close>

definition mergeSettings ::
  "NightVisionEnhancement \<Rightarrow> PartialNightVisionEnhancement \<Rightarrow> NightVisionEnhancement"
where
  "mergeSettings d settings =
     \<lparr>nv_brightness = (case pnv_brightness settings of Some v \<Rightarrow> v | None \<Rightarrow> nv_brightness d),
      nv_contrast = (case pnv_contrast settings of Some v \<Rightarrow> v | None \<Rightarrow> nv_contrast d),
      nv_gamma = (case pnv_gamma settings of Some v \<Rightarrow> v | None \<Rightarrow> nv_gamma d),
      nv_noiseReduction =
        (case pnv_noiseReduction settings of Some v \<Rightarrow> v | None \<Rightarrow> nv_noiseReduction d),
      nv_edgeEnhancement =
        (case pnv_edgeEnhancement settings of Some v \<Rightarrow> v | None \<Rightarrow> nv_edgeEnhancement d)\<rparr>"

definition enhanceNightVision :: "ImageData \<Rightarrow> PartialNightVisionEnhancement \<Rightarrow> ImageData" where
  "enhanceNightVision imageData settings =
     (let config = mergeSettings defaultSettings settings;
          enhanced0 = \<lparr>img_width = img_width imageData, img_height = img_height imageData,
                       img_data = img_data imageData\<rparr>;
          enhanced1 = adjustBrightness enhanced0 (nv_brightness config);
          enhanced2 = adjustContrast enhanced1 (nv_contrast config);
          enhanced3 = adjustGamma enhanced2 (nv_gamma config);
          enhanced4 = denoiseImage enhanced3 (nv_noiseReduction config);
          enhanced5 = enhanceEdges enhanced4 (nv_edgeEnhancement config)
      in applyThermalEffect enhanced5)"

text \<open>The settings of the neutral scenario, all five keys given.\<close>

definition neutralSettings :: PartialNightVisionEnhancement where
  "neutralSettings =
     \<lparr>pnv_brightness = Some 1, pnv_contrast = Some 1, pnv_gamma = Some 1,
      pnv_noiseReduction = Some 0, pnv_edgeEnhancement = Some 0\<rparr>"

text \<open>A frame of three by three pixels, for concrete inputs.\<close>

definition ninePixels :: ImageData where
  "ninePixels =
     \<lparr>img_width = 3, img_height = 3,
      img_data = concat (replicate 9 [10, 200, 30, 77])\<rparr>"

text \<open>The settings object with no key.\<close>

definition noSettings :: PartialNightVisionEnhancement where
  "noSettings =
     \<lparr>pnv_brightness = None, pnv_contrast = None, pnv_gamma = None,
      pnv_noiseReduction = None, pnv_edgeEnhancement = None\<rparr>"

text \<open>
  \<open>alphaKept d d'\<close>: the array \<open>d'\<close> has the length of \<open>d\<close> and the same bytes at the
  alpha positions \<open>4 * k + 3\<close>.
\<close>

definition alphaKept :: "8 word list \<Rightarrow> 8 word list \<Rightarrow> bool" where
  "alphaKept d d' = (length d' = length d \<and> (\<forall>k. d' ! (4 * k + 3) = d ! (4 * k + 3)))"

section \<open>Map export (use-mapping.ts, exportMap)\<close>

text \<open>
  The hook's state (\<^verbatim>\<open>MappingState\<close>), its \<^verbatim>\<open>performanceRef\<close> and the object that
  \<^verbatim>\<open>exportMap\<close> returns. \<open>now\<close> is the reading of \<^verbatim>\<open>performance.now()\<close>, \<open>isoString\<close>
  the value of \<^verbatim>\<open>new Date().toISOString()\<close>. \<^verbatim>\<open>Math.round\<close> rounds to the nearest
  integer, a tie going up. The quotient for \<open>averageSpeed\<close> is that of the source
  when the session duration is not zero.
\<close>

record Statistics =
  st_totalPoints :: nat
  st_totalLandmarks :: nat
  st_mappedArea :: real
  st_processingTime :: real
  st_accuracy :: real

record MappingState =
  ms_isActive :: bool
  ms_isProcessing :: bool
  ms_currentMap :: SpatialMap
  ms_trajectory :: Trajectory
  ms_landmarks :: "Landmark list"
  ms_mapPoints :: "MapPoint3D list"
  ms_statistics :: Statistics
  ms_error :: "string option"

record Performance =
  pf_frameCount :: nat
  pf_totalProcessingTime :: real
  pf_startTime :: real

record SessionInfo =
  si_duration :: int
  si_frameCount :: nat
  si_avgProcessingTime :: int

record ExportedTrajectory =
  et_points :: "TrajectoryPoint list"
  et_totalDistance :: real
  et_averageSpeed :: real
  et_totalTime :: real

record Metadata =
  md_version :: string
  md_format :: string
  md_coordinateSystem :: string

record ExportedMap =
  ex_timestamp :: string
  ex_sessionInfo :: SessionInfo
  ex_map :: SpatialMap
  ex_trajectory :: ExportedTrajectory
  ex_statistics :: Statistics
  ex_metadata :: Metadata

definition mathRound :: "real \<Rightarrow> int" where
  "mathRound x = \<lfloor>x + 1 / 2\<rfloor>"

definition exportMap :: "real \<Rightarrow> string \<Rightarrow> Performance \<Rightarrow> MappingState \<Rightarrow> ExportedMap" where
  "exportMap now isoString perf state =
     (let sessionDuration = now - pf_startTime perf
      in \<lparr>ex_timestamp = isoString,
          ex_sessionInfo =
            \<lparr>si_duration = mathRound sessionDuration,
             si_frameCount = pf_frameCount perf,
             si_avgProcessingTime =
               (if pf_frameCount perf > 0
                then mathRound (pf_totalProcessingTime perf / real (pf_frameCount perf))
                else 0)\<rparr>,
          ex_map =
            \<lparr>sm_points = sm_points (ms_currentMap state),
             sm_landmarks = sm_landmarks (ms_currentMap state),
             sm_boundaries = sm_boundaries (ms_currentMap state)\<rparr>,
          ex_trajectory =
            \<lparr>et_points = tr_points (ms_trajectory state),
             et_totalDistance = tr_totalDistance (ms_trajectory state),
             et_averageSpeed = tr_totalDistance (ms_trajectory state) / (sessionDuration / 1000),
             et_totalTime = sessionDuration / 1000\<rparr>,
          ex_statistics = ms_statistics state,
          ex_metadata =
            \<lparr>md_version = ''1.0'', md_format = ''SLAM_JSON'',
             md_coordinateSystem = ''camera_relative''\<rparr>\<rparr>)"

definition initialMappingState :: MappingState where
  "initialMappingState =
     \<lparr>ms_isActive = False, ms_isProcessing = False,
      ms_currentMap = \<lparr>sm_points = [], sm_landmarks = [], sm_boundaries = []\<rparr>,
      ms_trajectory = \<lparr>tr_points = [], tr_totalDistance = 0, tr_averageSpeed = 0\<rparr>,
      ms_landmarks = [], ms_mapPoints = [],
      ms_statistics = \<lparr>st_totalPoints = 0, st_totalLandmarks = 0, st_mappedArea = 0,
                        st_processingTime = 0, st_accuracy = 0\<rparr>,
      ms_error = None\<rparr>"

section \<open>Helper lemmas\<close>

lemma sqrt_less_const: "0 < c \<Longrightarrow> sqrt x < c \<longleftrightarrow> x < c\<^sup>2"
proof -
  assume c: "0 < c"
  have "sqrt x < c \<longleftrightarrow> sqrt x < sqrt (c\<^sup>2)"
    using c by simp
  also have "\<dots> \<longleftrightarrow> x < c\<^sup>2"
    by (rule real_sqrt_less_iff)
  finally show ?thesis .
qed

lemma similar_iff:
  "similar n p \<longleftrightarrow>
     obj_label p = obj_label n \<and>
     (center_x (obj_center n) - center_x (obj_center p))\<^sup>2 +
     (center_y (obj_center n) - center_y (obj_center p))\<^sup>2 < 10000"
  by (simp add: similar_def centerDistance_def sqrt_less_const)

lemma trackLoop_map:
  "trackLoop prev news acc =
     acc @ map (\<lambda>n. case List.find (similar n) prev of
                       Some s \<Rightarrow> n\<lparr>obj_id := obj_id s\<rparr>
                     | None \<Rightarrow> n) news"
  by (induction news arbitrary: acc) (simp_all split: option.split)

lemma find_Some_nth:
  "List.find P xs = Some x \<longleftrightarrow>
     (\<exists>k<length xs. xs ! k = x \<and> P x \<and> (\<forall>j<k. \<not> P (xs ! j)))"
  by (auto simp: find_Some_iff)

lemma find_None_nth: "List.find P xs = None \<longleftrightarrow> (\<forall>k<length xs. \<not> P (xs ! k))"
  by (auto simp: find_None_iff in_set_conv_nth)


subsection \<open>Insertion into the map\<close>



lemma numSquare_numSub_self: "isFinite a \<Longrightarrow> numSquare (numSub a a) = Fin 0"
  by (cases a) (simp_all add: numSquare_def numSub_def)

lemma euclideanDistance3D_self: "finitePoint a \<Longrightarrow> euclideanDistance3D a a = Fin 0"
  by (simp add: finitePoint_def euclideanDistance3D_def numSquare_numSub_self)

lemma near_self: "finitePoint a \<Longrightarrow> 0 < r \<Longrightarrow> numLess (euclideanDistance3D a a) (Fin r)"
  by (simp add: euclideanDistance3D_self)

text \<open>A coordinate that is not finite makes every distance infinite or NaN.\<close>

lemma numSquare_not_NegInf: "numSquare a \<noteq> NegInf"
  by (cases a) (simp_all add: numSquare_def)

lemma numSquare_numSub_nonfinite:
  "\<not> isFinite a \<or> \<not> isFinite b \<Longrightarrow>
     numSquare (numSub a b) = PosInf \<or> numSquare (numSub a b) = NaN"
  by (cases a; cases b) (simp_all add: numSquare_def numSub_def)

lemma numAdd_nonfinite:
  "u = PosInf \<or> u = NaN \<Longrightarrow> v \<noteq> NegInf \<Longrightarrow>
     (numAdd u v = PosInf \<or> numAdd u v = NaN) \<and> (numAdd v u = PosInf \<or> numAdd v u = NaN)"
  by (cases u; cases v) simp_all

lemma numAdd_squares_not_NegInf: "u \<noteq> NegInf \<Longrightarrow> v \<noteq> NegInf \<Longrightarrow> numAdd u v \<noteq> NegInf"
  by (cases u; cases v) simp_all

lemma numLess_numSqrt_nonfinite: "u = PosInf \<or> u = NaN \<Longrightarrow> \<not> numLess (numSqrt u) (Fin r)"
  by auto

lemma far_nonfinite:
  assumes "\<not> finitePoint a \<or> \<not> finitePoint b"
  shows "\<not> numLess (euclideanDistance3D a b) (Fin r)"
proof -
  let ?x = "numSquare (numSub (mp_x a) (mp_x b))"
  let ?y = "numSquare (numSub (mp_y a) (mp_y b))"
  let ?z = "numSquare (numSub (mp_z a) (mp_z b))"
  have n: "?x \<noteq> NegInf" "?y \<noteq> NegInf" "?z \<noteq> NegInf"
    by (rule numSquare_not_NegInf)+
  consider "\<not> isFinite (mp_x a) \<or> \<not> isFinite (mp_x b)"
    | "\<not> isFinite (mp_y a) \<or> \<not> isFinite (mp_y b)"
    | "\<not> isFinite (mp_z a) \<or> \<not> isFinite (mp_z b)"
    using assms unfolding finitePoint_def by blast
  then have "numAdd (numAdd ?x ?y) ?z = PosInf \<or> numAdd (numAdd ?x ?y) ?z = NaN"
  proof cases
    case 1
    then have "numAdd ?x ?y = PosInf \<or> numAdd ?x ?y = NaN"
      using numAdd_nonfinite [OF numSquare_numSub_nonfinite n(2)] by blast
    then show ?thesis using numAdd_nonfinite [OF _ n(3)] by blast
  next
    case 2
    then have "numAdd ?x ?y = PosInf \<or> numAdd ?x ?y = NaN"
      using numAdd_nonfinite [OF numSquare_numSub_nonfinite n(1)] by blast
    then show ?thesis using numAdd_nonfinite [OF _ n(3)] by blast
  next
    case 3
    have "numAdd ?x ?y \<noteq> NegInf" by (rule numAdd_squares_not_NegInf [OF n(1,2)])
    then show ?thesis using numAdd_nonfinite [OF numSquare_numSub_nonfinite [OF 3]] by blast
  qed
  then show ?thesis
    unfolding euclideanDistance3D_def by (rule numLess_numSqrt_nonfinite)
qed

text \<open>Distances between points given by finite coordinates.\<close>

lemma sqrt_less_iff: "0 \<le> x \<Longrightarrow> sqrt x < r \<longleftrightarrow> 0 < r \<and> x < r\<^sup>2"
proof (cases "0 < r")
  case True
  then show ?thesis by (simp add: sqrt_less_const)
next
  case False
  assume "0 \<le> x"
  then have "0 \<le> sqrt x" by simp
  then have "\<not> sqrt x < r" using False by linarith
  then show ?thesis using False by simp
qed

lemma euclideanDistance3D_mkPoint:
  "numLess (euclideanDistance3D (mkPoint x y z c t) (mkPoint x' y' z' c' t')) (Fin r) \<longleftrightarrow>
     0 < r \<and> (x - x')\<^sup>2 + (y - y')\<^sup>2 + (z - z')\<^sup>2 < r\<^sup>2"
proof -
  have nn: "0 \<le> (x - x')\<^sup>2 + (y - y')\<^sup>2 + (z - z')\<^sup>2" by simp
  have "euclideanDistance3D (mkPoint x y z c t) (mkPoint x' y' z' c' t') =
          Fin (sqrt ((x - x')\<^sup>2 + (y - y')\<^sup>2 + (z - z')\<^sup>2))"
    using nn
    by (simp add: euclideanDistance3D_def mkPoint_def numSquare_def numSub_def power2_eq_square
          not_less)
  then show ?thesis using sqrt_less_iff [OF nn] by simp
qed

lemma mkPoint_confidence: "mp_confidence (mkPoint x y z c t) = c"
  by (simp add: mkPoint_def)

lemma finitePoint_mkPoint: "finitePoint (mkPoint x y z c t)"
  by (simp add: finitePoint_def mkPoint_def)



lemma set_nearbyPoints:
  "set (nearbyPoints p mps) =
     {i. i < length mps \<and> numLess (euclideanDistance3D p (mps ! i)) (Fin 0.05)}"
  by (auto simp: nearbyPoints_def)

lemma distinct_nearbyPoints: "distinct (nearbyPoints p mps)"
  by (simp add: nearbyPoints_def)

lemma reduce_best:
  "foldl (\<lambda>a b. if (c a :: real) > c b then a else b) a bs \<in> set (a # bs) \<and>
   (\<forall>x\<in>set (a # bs). c x \<le> c (foldl (\<lambda>a b. if c a > c b then a else b) a bs))"
proof (induction bs arbitrary: a)
  case Nil
  show ?case by simp
next
  case (Cons b bs)
  show ?case
  proof (cases "c a > c b")
    case True
    then show ?thesis using Cons.IH [of a] by auto
  next
    case False
    then show ?thesis using Cons.IH [of b] by auto
  qed
qed

lemma bestExisting_mem: "nearby \<noteq> [] \<Longrightarrow> bestExisting mps nearby \<in> set nearby"
  using reduce_best [of "\<lambda>i. mp_confidence (mps ! i)" "hd nearby" "tl nearby"]
  by (cases nearby) (simp_all add: bestExisting_def)

lemma bestExisting_max:
  "i \<in> set nearby \<Longrightarrow> mp_confidence (mps ! i) \<le> mp_confidence (mps ! bestExisting mps nearby)"
  using reduce_best [of "\<lambda>i. mp_confidence (mps ! i)" "hd nearby" "tl nearby"]
  by (cases nearby) (auto simp: bestExisting_def)

lemma addPoint_unchanged:
  assumes "i \<in> set (nearbyPoints p mps)" and "mp_confidence p \<le> mp_confidence (mps ! i)"
  shows "addPoint mps p = mps"
proof -
  have ne: "nearbyPoints p mps \<noteq> []" using assms(1) by auto
  have "mp_confidence p \<le> mp_confidence (mps ! bestExisting mps (nearbyPoints p mps))"
    using bestExisting_max [OF assms(1), of mps] assms(2) by simp
  then show ?thesis using ne by (simp add: addPoint_def Let_def)
qed

lemma addPoint_cases:
  obtains (push) "nearbyPoints p mps = []" "addPoint mps p = mps @ [p]"
  | (replace) k where "k \<in> set (nearbyPoints p mps)" "k = bestExisting mps (nearbyPoints p mps)"
      "mp_confidence p > mp_confidence (mps ! k)" "addPoint mps p = mps[k := p]"
  | (keep) "nearbyPoints p mps \<noteq> []"
      "\<not> mp_confidence p > mp_confidence (mps ! bestExisting mps (nearbyPoints p mps))"
      "addPoint mps p = mps"
proof (cases "nearbyPoints p mps = []")
  case True
  then show ?thesis using push by (simp add: addPoint_def)
next
  case False
  show ?thesis
  proof (cases "mp_confidence p > mp_confidence (mps ! bestExisting mps (nearbyPoints p mps))")
    case True
    then show ?thesis
      using replace [of "bestExisting mps (nearbyPoints p mps)"] False bestExisting_mem [OF False]
      by (simp add: addPoint_def Let_def)
  next
    case False2: False
    then show ?thesis using keep False by (simp add: addPoint_def Let_def)
  qed
qed

lemma nearbyPoints_addPoint:
  assumes "finitePoint p"
  shows "nearbyPoints p (addPoint mps p) \<noteq> []"
proof (cases rule: addPoint_cases [of p mps])
  case push
  have "length mps \<in> set (nearbyPoints p (mps @ [p]))"
    by (simp add: set_nearbyPoints near_self [OF assms])
  then show ?thesis using push by auto
next
  case (replace k)
  have k: "k < length mps" using replace(1) by (simp add: set_nearbyPoints)
  then have "k \<in> set (nearbyPoints p (mps[k := p]))"
    by (simp add: set_nearbyPoints near_self [OF assms])
  then show ?thesis using replace by auto
next
  case keep
  then show ?thesis by simp
qed

lemma addPoint_idem:
  assumes "finitePoint p"
  shows "addPoint (addPoint mps p) p = addPoint mps p"
proof (cases rule: addPoint_cases [of p mps])
  case push
  have "length mps \<in> set (nearbyPoints p (mps @ [p]))"
    by (simp add: set_nearbyPoints near_self [OF assms])
  then have "addPoint (mps @ [p]) p = mps @ [p]"
    by (rule addPoint_unchanged) simp
  then show ?thesis using push by simp
next
  case (replace k)
  have k: "k < length mps" using replace(1) by (simp add: set_nearbyPoints)
  then have "k \<in> set (nearbyPoints p (mps[k := p]))"
    by (simp add: set_nearbyPoints near_self [OF assms])
  then have "addPoint (mps[k := p]) p = mps[k := p]"
    by (rule addPoint_unchanged) (simp add: k)
  then show ?thesis using replace by simp
next
  case keep
  then show ?thesis by simp
qed

lemma nearbyPoints_nonfinite: "\<not> finitePoint p \<Longrightarrow> nearbyPoints p mps = []"
  by (simp add: nearbyPoints_def far_nonfinite)

lemma addPoint_nonfinite: "\<not> finitePoint p \<Longrightarrow> addPoint mps p = mps @ [p]"
  by (simp add: addPoint_def nearbyPoints_nonfinite)

lemma length_addPoint:
  "length (addPoint mps p) = (if nearbyPoints p mps = [] then Suc (length mps) else length mps)"
  by (simp add: addPoint_def Let_def)




lemma nearbyPoints_Nil: "nearbyPoints p [] = []"
  by (simp add: nearbyPoints_def)

lemma nearbyPoints_one:
  "nearbyPoints p [a] = (if numLess (euclideanDistance3D p a) (Fin 0.05) then [0] else [])"
  by (simp add: nearbyPoints_def)


subsection \<open>The entry point\<close>

lemma mapPoints_processFrame:
  "mapPoints (fst (processFrame env img dps mv s)) =
     mapPoints (optimizeMap env
       (s\<lparr>mapPoints := addPointsToMap (mapPoints s)
            (convertDepthTo3D env dps img (updateTrajectory env (estimateCameraMovement env mv) s))\<rparr>))"
  by (simp add: processFrame_def Let_def optimizeMap_def detectLandmarks_def updateTrajectory_def
        split: prod.split)

lemma landmarks_processFrame:
  "landmarks (fst (processFrame env img dps mv s)) =
     landmarks (detectLandmarks env
       (convertDepthTo3D env dps img (updateTrajectory env (estimateCameraMovement env mv) s)) s)"
  by (simp add: processFrame_def Let_def optimizeMap_def detectLandmarks_def updateTrajectory_def
        split: prod.split)

lemma trajectory_processFrame:
  "trajectory (fst (processFrame env img dps mv s)) =
     trajectory (updateTrajectory env (estimateCameraMovement env mv) s)"
  by (simp add: processFrame_def Let_def optimizeMap_def detectLandmarks_def)

lemma snd_processFrame:
  "snd (processFrame env img dps mv s) = getCurrentMap (fst (processFrame env img dps mv s))"
  by (simp add: processFrame_def Let_def)

lemma length_optimizeMap: "length (mapPoints (optimizeMap env s)) \<le> 10000"
  by (simp add: optimizeMap_def Let_def)

lemma confident_optimizeMap:
  "p \<in> set (mapPoints (optimizeMap env s)) \<Longrightarrow> mp_confidence p > 0.3"
  by (auto simp: optimizeMap_def Let_def dest!: in_set_takeD split: if_splits)

lemma length_detectLandmarks: "length (landmarks (detectLandmarks env pts s)) \<le> 50"
  by (simp add: detectLandmarks_def Let_def)

lemma sorted_detectLandmarks:
  "sorted (map (\<lambda>l. - lm_confidence l) (landmarks (detectLandmarks env pts s)))"
  by (simp add: detectLandmarks_def Let_def sorted_wrt_take flip: take_map)

lemma tr_points_updateTrajectory:
  "\<exists>sample. tr_points (trajectory (updateTrajectory env mv s)) =
     (if length (tr_points (trajectory s)) < 1000 then tr_points (trajectory s) @ [sample]
      else tl (tr_points (trajectory s) @ [sample]))"
  by (cases "lastPosition s"; cases mv) (auto simp: updateTrajectory_def Let_def)

lemma length_updateTrajectory:
  "length (tr_points (trajectory s)) \<le> 1000 \<Longrightarrow>
     length (tr_points (trajectory (updateTrajectory env mv s))) \<le> 1000"
  by (cases "lastPosition s"; cases mv) (auto simp: updateTrajectory_def Let_def)

lemma invariant_processFrame:
  assumes "length (tr_points (trajectory s)) \<le> 1000"
  shows "invariant (fst (processFrame env img dps mv s))"
proof -
  have "list_all (\<lambda>p. mp_confidence p > 0.3) (mapPoints (optimizeMap env s'))" for s'
    unfolding list_all_iff using confident_optimizeMap by blast
  then show ?thesis
    unfolding invariant_def mapPoints_processFrame landmarks_processFrame trajectory_processFrame
    using assms length_optimizeMap length_detectLandmarks sorted_detectLandmarks
      length_updateTrajectory
    by blast
qed

lemma reachable_invariant: "reachable s \<Longrightarrow> invariant s"
proof (induction rule: reachable.induct)
  case constructed
  show ?case by (simp add: invariant_def initialProcessor_def)
next
  case (processed s env imageData depthPoints motionVector)
  then show ?case by (intro invariant_processFrame) (simp add: invariant_def)
next
  case (reset s)
  show ?case by (simp add: invariant_def resetMap_def)
qed

lemma convertDepthTo3D_Nil: "convertDepthTo3D env [] img s = []"
  by (cases "lastPosition s") (simp add: convertDepthTo3D_def)

lemma addPointsToMap_Nil: "addPointsToMap mps [] = mps"
  by (simp add: addPointsToMap_def)

lemma clusterPoints_Nil: "clusterPoints [] = []"
  by (simp add: clusterPoints_def)

lemma landmarks_detectLandmarks_Nil:
  "landmarks (detectLandmarks env [] s) = take 50 (sort_key (\<lambda>l. - lm_confidence l) (landmarks s))"
  by (simp add: detectLandmarks_def clusterPoints_Nil)

lemma landmarks_processFrame_Nil:
  assumes "invariant s"
  shows "landmarks (fst (processFrame env img [] mv s)) = landmarks s"
proof -
  have "sort_key (\<lambda>l. - lm_confidence l) (landmarks s) = landmarks s"
    using assms by (intro sort_key_id_if_sorted) (simp add: invariant_def)
  then show ?thesis
    using assms
    by (simp add: landmarks_processFrame convertDepthTo3D_Nil landmarks_detectLandmarks_Nil
          invariant_def)
qed

lemma mapPoints_processFrame_Nil:
  assumes "invariant s"
  shows "mapPoints (fst (processFrame env img [] mv s)) =
           filter (\<lambda>p. env_optimizeTime env - mp_timestamp p < 30000) (mapPoints s)"
proof -
  have c: "\<And>p. p \<in> set (mapPoints s) \<Longrightarrow> mp_confidence p > 0.3"
    using assms by (simp add: invariant_def list_all_iff)
  have f: "filter (\<lambda>p. env_optimizeTime env - mp_timestamp p < 30000 \<and> mp_confidence p > 0.3)
             (mapPoints s) =
           filter (\<lambda>p. env_optimizeTime env - mp_timestamp p < 30000) (mapPoints s)"
    by (rule filter_cong) (use c in auto)
  have "length (filter (\<lambda>p. env_optimizeTime env - mp_timestamp p < 30000) (mapPoints s))
          \<le> length (mapPoints s)"
    by (rule length_filter_le)
  moreover have "length (mapPoints s) \<le> 10000"
    using assms by (simp add: invariant_def)
  ultimately have l:
    "\<not> length (filter (\<lambda>p. env_optimizeTime env - mp_timestamp p < 30000) (mapPoints s)) > 10000"
    by linarith
  have "mapPoints (fst (processFrame env img [] mv s)) = mapPoints (optimizeMap env s)"
    by (simp add: mapPoints_processFrame convertDepthTo3D_Nil addPointsToMap_Nil optimizeMap_def)
  also have "\<dots> = filter (\<lambda>p. env_optimizeTime env - mp_timestamp p < 30000) (mapPoints s)"
    unfolding optimizeMap_def Let_def f using l by simp
  finally show ?thesis .
qed

lemma stateWithPoint_mapPoints:
  "mapPoints stateWithPoint = [mkPoint (- 1 / 2) (1 / 2) (1 / 2) 0.8 0]"
  by (simp add: stateWithPoint_def mapPoints_processFrame optimizeMap_def Let_def
        convertDepthTo3D_def updateTrajectory_def estimateCameraMovement_def initialProcessor_def
        mkEnv_def onePixel_def mkDepthPoint_def mkPoint_def readChannel_def
        addPointsToMap_def addPoint_def nearbyPoints_Nil)

lemma reachable_stateWithPoint: "reachable stateWithPoint"
  unfolding stateWithPoint_def by (rule reachable.processed [OF reachable.constructed])

subsection \<open>Frame enhancer\<close>

lemma unat_lt_256: "unat (w :: 8 word) < 256"
  using unsigned_less [of w, where ?'a = nat] by simp

lemma toUint8Clamp_of_nat:
  assumes "n < 256"
  shows "toUint8Clamp (real n) = (of_nat n :: 8 word)"
proof (cases "n = 0")
  case True
  then show ?thesis by (simp add: toUint8Clamp_def)
next
  case nz: False
  show ?thesis
  proof (cases "n = 255")
    case True
    then show ?thesis by (simp add: toUint8Clamp_def)
  next
    case False
    then have "\<not> real n \<ge> 255" using assms by simp
    moreover have "\<not> real n \<le> 0" using nz by simp
    ultimately show ?thesis by (simp add: toUint8Clamp_def)
  qed
qed

lemma toUint8Clamp_chan: "toUint8Clamp (chan data i) = data ! i"
proof -
  define n where "n = unat (data ! i)"
  have n: "n < 256" unfolding n_def by (rule unat_lt_256)
  have w: "data ! i = of_nat n" unfolding n_def by simp
  have "chan data i = real n" by (simp only: chan_def n_def)
  then show ?thesis using toUint8Clamp_of_nat [OF n] w by simp
qed

lemma chan_le: "chan data i \<le> 255"
proof -
  have "unat (data ! i) \<le> 255" using unat_lt_256 [of "data ! i"] by simp
  then have "real (unat (data ! i)) \<le> real 255" by (simp only: of_nat_le_iff)
  then show ?thesis by (simp add: chan_def)
qed

lemma chan_ge: "0 \<le> chan data i"
  unfolding chan_def by (rule of_nat_0_le_iff)

lemma foldl_fixed: "(\<And>x. f a x = a) \<Longrightarrow> foldl f a xs = a"
  by (induction xs) simp_all

lemma contrastChannel_one: "contrastChannel 1 (chan data i) = chan data i"
  using chan_le [of data i] chan_ge [of data i] by (simp add: contrastChannel_def)

lemma gammaChannel_one: "gammaChannel 1 (chan data i) = chan data i"
  using chan_le [of data i] chan_ge [of data i] by (simp add: gammaChannel_def)

lemma adjustBrightness_one: "adjustBrightness f 1 = f"
proof -
  have "min 255 (chan data i) = chan data i" for data i
    using chan_le [of data i] by simp
  then show ?thesis
    by (simp add: adjustBrightness_def foldl_fixed toUint8Clamp_chan)
qed

lemma adjustContrast_one: "adjustContrast f 1 = f"
  by (simp add: adjustContrast_def contrastChannel_one foldl_fixed toUint8Clamp_chan)

lemma adjustGamma_one: "adjustGamma f 1 = f"
  by (simp add: adjustGamma_def gammaChannel_one foldl_fixed toUint8Clamp_chan)

lemma denoiseImage_zero: "denoiseImage f 0 = f"
  by (simp add: denoiseImage_def Let_def foldl_fixed toUint8Clamp_chan split_def)

lemma enhanceEdges_zero: "enhanceEdges f 0 = f"
proof -
  have "min 255 (chan data i) = chan data i" for data i
    using chan_le [of data i] by simp
  then show ?thesis
    by (simp add: enhanceEdges_def Let_def foldl_fixed toUint8Clamp_chan split_def)
qed


lemma frame_eta:
  "\<lparr>img_width = img_width f, img_height = img_height f, img_data = img_data f\<rparr> = f"
  by (cases f) simp

lemma wf_ninePixels: "wf_frame ninePixels"
  by (simp add: wf_frame_def ninePixels_def length_concat sum_list_replicate)

lemma alphaKept_refl: "alphaKept d d"
  by (simp add: alphaKept_def)

lemma alphaKept_trans: "alphaKept a b \<Longrightarrow> alphaKept b c \<Longrightarrow> alphaKept a c"
  by (simp add: alphaKept_def)

lemma alphaKept_update:
  assumes "j mod 4 \<noteq> 3" and "alphaKept d d'"
  shows "alphaKept d (d'[j := v])"
proof -
  have "j \<noteq> 4 * k + 3" for k
  proof
    assume "j = 4 * k + 3"
    then have "j mod 4 = 3" by simp
    then show False using assms(1) by simp
  qed
  then show ?thesis using assms(2) by (simp add: alphaKept_def)
qed

lemma foldl_invariant:
  assumes "P a" and "\<And>b x. x \<in> set xs \<Longrightarrow> P b \<Longrightarrow> P (f b x)"
  shows "P (foldl f a xs)"
  using assms by (induction xs arbitrary: a) simp_all

lemma pixelStarts_mod: "i \<in> set (pixelStarts n) \<Longrightarrow> i mod 4 = 0"
  by (auto simp: pixelStarts_def)

lemma alphaKept_rgb:
  assumes "i mod 4 = 0" and "alphaKept d d'"
  shows "alphaKept d (d'[i := r, i + 1 := g, i + 2 := b])"
proof -
  have "i mod 4 \<noteq> 3" "(i + 1) mod 4 \<noteq> 3" "(i + 2) mod 4 \<noteq> 3"
    using assms(1) by presburger+
  then show ?thesis using assms(2) by (intro alphaKept_update)
qed

lemma alphaKept_pixel_loop:
  "alphaKept d (foldl (\<lambda>data i. data[i := r data i, i + 1 := g data i, i + 2 := b data i])
                 d (pixelStarts n))"
proof (rule foldl_invariant [where P = "alphaKept d"])
  show "alphaKept d d" by (rule alphaKept_refl)
next
  fix c x assume "x \<in> set (pixelStarts n)" and "alphaKept d c"
  then show "alphaKept d (c[x := r c x, x + 1 := g c x, x + 2 := b c x])"
    by (intro alphaKept_rgb pixelStarts_mod)
qed

lemma alphaKept_adjustBrightness: "alphaKept (img_data f) (img_data (adjustBrightness f x))"
  by (simp only: adjustBrightness_def Let_def ImageData.select_convs) (rule alphaKept_pixel_loop)

lemma alphaKept_adjustContrast: "alphaKept (img_data f) (img_data (adjustContrast f x))"
  by (simp only: adjustContrast_def Let_def ImageData.select_convs) (rule alphaKept_pixel_loop)

lemma alphaKept_adjustGamma: "alphaKept (img_data f) (img_data (adjustGamma f x))"
  by (simp only: adjustGamma_def Let_def ImageData.select_convs) (rule alphaKept_pixel_loop)

lemma alphaKept_applyThermalEffect: "alphaKept (img_data f) (img_data (applyThermalEffect f))"
proof -
  have "alphaKept d
          (foldl (\<lambda>data i. case t data i of
                          (r, g, b) \<Rightarrow> data[i := u r, i + 1 := u g, i + 2 := u b])
             d (pixelStarts n))" for d n t and u :: "real \<Rightarrow> 8 word"
  proof (rule foldl_invariant [where P = "alphaKept d"])
    show "alphaKept d d" by (rule alphaKept_refl)
  next
    fix c x assume x: "x \<in> set (pixelStarts n)" and c: "alphaKept d c"
    obtain r g b where t: "t c x = (r, g, b)" by (cases "t c x") auto
    have "alphaKept d (c[x := u r, x + 1 := u g, x + 2 := u b])"
      using x c by (intro alphaKept_rgb pixelStarts_mod)
    then show "alphaKept d (case t c x of (r, g, b) \<Rightarrow> c[x := u r, x + 1 := u g, x + 2 := u b])"
      by (simp only: t prod.case)
  qed
  then show ?thesis
    by (simp only: applyThermalEffect_def Let_def ImageData.select_convs)
qed

lemma alphaKept_channel_loop:
  assumes "alphaKept d d'"
  shows "alphaKept d (foldl (\<lambda>output c. output[p * 4 + c := v output c]) d' [0..<3])"
proof (rule foldl_invariant [where P = "alphaKept d"])
  show "alphaKept d d'" by (rule assms)
next
  fix b c assume "c \<in> set [0..<3]" and k: "alphaKept d b"
  then have "c < 3" by simp
  then have "(p * 4 + c) mod 4 \<noteq> 3" by presburger
  then show "alphaKept d (b[p * 4 + c := v b c])" using k by (rule alphaKept_update)
qed

lemma alphaKept_denoiseImage: "alphaKept (img_data f) (img_data (denoiseImage f x))"
proof -
  have "alphaKept d
          (foldl (\<lambda>output (y, x'). foldl (\<lambda>output c. output[(y * w + x') * 4 + c := v y x' output c])
                      output [0..<3]) d yx)" for d w yx and v :: "nat \<Rightarrow> nat \<Rightarrow> 8 word list \<Rightarrow> nat \<Rightarrow> 8 word"
  proof (rule foldl_invariant [where P = "alphaKept d"])
    show "alphaKept d d" by (rule alphaKept_refl)
  next
    fix b and p :: "nat \<times> nat" assume b: "alphaKept d b"
    obtain y x' where p: "p = (y, x')" by (cases p)
    show "alphaKept d (case p of (y, x') \<Rightarrow>
            foldl (\<lambda>output c. output[(y * w + x') * 4 + c := v y x' output c]) b [0..<3])"
      by (simp only: p prod.case) (rule alphaKept_channel_loop [OF b])
  qed
  then show ?thesis
    by (simp only: denoiseImage_def Let_def ImageData.select_convs)
qed

lemma alphaKept_enhanceEdges: "alphaKept (img_data f) (img_data (enhanceEdges f x))"
proof -
  have "alphaKept d
          (foldl (\<lambda>output (y, x').
                    case g y x' of (gx, gy) \<Rightarrow>
                      foldl (\<lambda>output c. output[(y * w + x') * 4 + c := v y x' gx gy output c])
                        output [0..<3]) d yx)"
    for d w yx and g :: "nat \<Rightarrow> nat \<Rightarrow> real \<times> real"
      and v :: "nat \<Rightarrow> nat \<Rightarrow> real \<Rightarrow> real \<Rightarrow> 8 word list \<Rightarrow> nat \<Rightarrow> 8 word"
  proof (rule foldl_invariant [where P = "alphaKept d"])
    show "alphaKept d d" by (rule alphaKept_refl)
  next
    fix b and p :: "nat \<times> nat" assume b: "alphaKept d b"
    obtain y x' where p: "p = (y, x')" by (cases p)
    obtain gx gy where g: "g y x' = (gx, gy)" by (cases "g y x'")
    show "alphaKept d (case p of (y, x') \<Rightarrow>
            case g y x' of (gx, gy) \<Rightarrow>
              foldl (\<lambda>output c. output[(y * w + x') * 4 + c := v y x' gx gy output c]) b [0..<3])"
      by (simp only: p g prod.case) (rule alphaKept_channel_loop [OF b])
  qed
  then show ?thesis
    by (simp only: enhanceEdges_def Let_def ImageData.select_convs)
qed

lemma dims_stages:
  "img_width (adjustBrightness f x) = img_width f" "img_height (adjustBrightness f x) = img_height f"
  "img_width (adjustContrast f x) = img_width f" "img_height (adjustContrast f x) = img_height f"
  "img_width (adjustGamma f x) = img_width f" "img_height (adjustGamma f x) = img_height f"
  "img_width (denoiseImage f x) = img_width f" "img_height (denoiseImage f x) = img_height f"
  "img_width (enhanceEdges f x) = img_width f" "img_height (enhanceEdges f x) = img_height f"
  "img_width (applyThermalEffect f) = img_width f" "img_height (applyThermalEffect f) = img_height f"
  by (simp_all only: adjustBrightness_def adjustContrast_def adjustGamma_def denoiseImage_def
        enhanceEdges_def applyThermalEffect_def Let_def ImageData.select_convs)

lemma alphaKept_enhanceNightVision:
  "alphaKept (img_data f) (img_data (enhanceNightVision f settings))"
  unfolding enhanceNightVision_def Let_def frame_eta
  by (intro alphaKept_trans [OF _ alphaKept_applyThermalEffect]
        alphaKept_trans [OF _ alphaKept_enhanceEdges]
        alphaKept_trans [OF _ alphaKept_denoiseImage]
        alphaKept_trans [OF _ alphaKept_adjustGamma]
        alphaKept_trans [OF _ alphaKept_adjustContrast]
        alphaKept_adjustBrightness)

lemma dims_enhanceNightVision:
  "img_width (enhanceNightVision f settings) = img_width f \<and>
   img_height (enhanceNightVision f settings) = img_height f"
  by (simp add: enhanceNightVision_def Let_def frame_eta dims_stages)

lemma ninePixels_alpha: "img_data ninePixels ! (4 * 4 + 3) = 77"
  by (simp add: ninePixels_def eval_nat_numeral)

section \<open>Object tracker: claims\<close>

text \<open>
  C2 (as amended). With tracking enabled and a non-empty list of previous objects, the
  tracker returns one object per new object, in order. The i-th result is the i-th new
  object with its identity replaced by that of the FIRST previous object, in list order,
  that has the same label and whose center is strictly less than 100 pixels away (not
  the nearest such object); all other fields are kept. If no previous object qualifies,
  the i-th result is the i-th new object unchanged.
\<close>

theorem trackObjects_first_match:
  assumes "enableTracking" and "previousObjects \<noteq> []" and "i < length newObjects"
  shows "length (trackObjects enableTracking newObjects previousObjects) = length newObjects \<and>
         (\<forall>k<length previousObjects.
            similar (newObjects ! i) (previousObjects ! k) \<and>
            (\<forall>j<k. \<not> similar (newObjects ! i) (previousObjects ! j)) \<longrightarrow>
            trackObjects enableTracking newObjects previousObjects ! i =
              (newObjects ! i)\<lparr>obj_id := obj_id (previousObjects ! k)\<rparr>) \<and>
         ((\<forall>k<length previousObjects. \<not> similar (newObjects ! i) (previousObjects ! k)) \<longrightarrow>
            trackObjects enableTracking newObjects previousObjects ! i = newObjects ! i)"
proof -
  let ?f = "\<lambda>n. case List.find (similar n) previousObjects of
                   Some s \<Rightarrow> n\<lparr>obj_id := obj_id s\<rparr> | None \<Rightarrow> n"
  have eq: "trackObjects enableTracking newObjects previousObjects = map ?f newObjects"
    using assms(1,2) by (simp add: trackObjects_def trackLoop_map)
  have len: "length (trackObjects enableTracking newObjects previousObjects) = length newObjects"
    by (simp add: eq)
  have hit: "trackObjects enableTracking newObjects previousObjects ! i =
             (newObjects ! i)\<lparr>obj_id := obj_id (previousObjects ! k)\<rparr>"
    if "k < length previousObjects" "similar (newObjects ! i) (previousObjects ! k)"
       "\<forall>j<k. \<not> similar (newObjects ! i) (previousObjects ! j)" for k
  proof -
    have "List.find (similar (newObjects ! i)) previousObjects = Some (previousObjects ! k)"
      unfolding find_Some_nth using that by blast
    then show ?thesis using assms(3) by (simp add: eq)
  qed
  have miss: "trackObjects enableTracking newObjects previousObjects ! i = newObjects ! i"
    if "\<forall>k<length previousObjects. \<not> similar (newObjects ! i) (previousObjects ! k)"
  proof -
    have "List.find (similar (newObjects ! i)) previousObjects = None"
      unfolding find_None_nth using that by blast
    then show ?thesis using assms(3) by (simp add: eq)
  qed
  show ?thesis using len hit miss by blast
qed

text \<open>The theorem at a concrete input: the first of two qualifying previous objects
  gives its identity, although the second one is nearer.\<close>

theorem trackObjects_first_match_witness:
  "trackObjects True [mkObject ''n1'' ''pessoa'' 0 0]
      [mkObject ''A'' ''pessoa'' 90 0, mkObject ''B'' ''pessoa'' 10 0] ! 0 =
   (mkObject ''n1'' ''pessoa'' 0 0)\<lparr>obj_id := ''A''\<rparr>"
  using trackObjects_first_match [of True
      "[mkObject ''A'' ''pessoa'' 90 0, mkObject ''B'' ''pessoa'' 10 0]" 0
      "[mkObject ''n1'' ''pessoa'' 0 0]", THEN conjunct2, THEN conjunct1, rule_format, of 0]
  by (simp add: similar_iff mkObject_def)

text \<open>C2 as stated fails: previous object B has the new object's label, lies within
  100 pixels and is strictly nearer than A, yet the result carries the identity of A,
  which comes first in the list.\<close>

theorem trackObjects_nearest_counterexample:
  "similar (mkObject ''n1'' ''pessoa'' 0 0) (mkObject ''B'' ''pessoa'' 10 0) \<and>
   centerDistance (mkObject ''n1'' ''pessoa'' 0 0) (mkObject ''B'' ''pessoa'' 10 0)
     < centerDistance (mkObject ''n1'' ''pessoa'' 0 0) (mkObject ''A'' ''pessoa'' 90 0) \<and>
   obj_id (trackObjects True [mkObject ''n1'' ''pessoa'' 0 0]
             [mkObject ''A'' ''pessoa'' 90 0, mkObject ''B'' ''pessoa'' 10 0] ! 0) = ''A''"
  by (simp add: trackObjects_def similar_iff centerDistance_def mkObject_def)

text \<open>
  C10. The tracker does not keep identities distinct: there are a list of new objects
  with pairwise distinct fresh identities and a list of previous objects with distinct
  identities (here two new objects of one label, both within 100 pixels of the single
  previous object of that label) for which two tracked objects carry the same identity.
\<close>

theorem trackObjects_duplicate_identity:
  "\<exists>newObjects previousObjects.
     distinct (map obj_id newObjects) \<and> distinct (map obj_id previousObjects) \<and>
     \<not> distinct (map obj_id (trackObjects True newObjects previousObjects))"
proof (intro exI conjI)
  let ?new = "[mkObject ''n1'' ''pessoa'' 100 100, mkObject ''n2'' ''pessoa'' 150 140]"
  let ?prev = "[mkObject ''A'' ''pessoa'' 120 120]"
  show "distinct (map obj_id ?new)" by (simp add: mkObject_def)
  show "distinct (map obj_id ?prev)" by (simp add: mkObject_def)
  show "\<not> distinct (map obj_id (trackObjects True ?new ?prev))"
    by (simp add: trackObjects_def similar_iff mkObject_def)
qed

text \<open>Hence distinct fresh identities on input do not guarantee distinct identities on
  output.\<close>

theorem trackObjects_duplicate_identity_witness:
  "\<not> (\<forall>newObjects previousObjects.
        distinct (map obj_id newObjects) \<and> distinct (map obj_id previousObjects) \<longrightarrow>
        distinct (map obj_id (trackObjects True newObjects previousObjects)))"
  using trackObjects_duplicate_identity by blast

section \<open>Morphology analyzer: claims\<close>




section \<open>Mapping engine, insertion step: claims\<close>




text \<open>
  C7 (as amended). For every map and every point \<open>p\<close> whose three coordinates are
  finite numbers, inserting \<open>p\<close> and then \<open>p\<close> again leaves the map as it is after
  the first insertion: the second insertion finds a neighbour (the point itself, or
  the neighbours that made the first insertion drop it), so it appends nothing, and it
  replaces nothing; the point count is that after the first insertion. The count stays
  the same only for such points: a point with a coordinate that is infinite or NaN is
  appended by each insertion.
\<close>

theorem addPointsToMap_twice:
  "(length (addPointsToMap (addPointsToMap mps [p]) [p]) = length (addPointsToMap mps [p])
      \<longleftrightarrow> finitePoint p) \<and>
   (finitePoint p \<longrightarrow>
      nearbyPoints p (addPointsToMap mps [p]) \<noteq> [] \<and>
      addPointsToMap (addPointsToMap mps [p]) [p] = addPointsToMap mps [p])"
proof (cases "finitePoint p")
  case True
  then show ?thesis
    by (simp add: addPointsToMap_def addPoint_idem nearbyPoints_addPoint)
next
  case False
  then show ?thesis
    by (simp add: addPointsToMap_def addPoint_nonfinite)
qed

theorem addPointsToMap_twice_witness:
  "finitePoint (mkPoint (1/64) 0 0 0.9 0) \<and>
   addPointsToMap [mkPoint 0 0 0 0.5 0] [mkPoint (1/64) 0 0 0.9 0] = [mkPoint (1/64) 0 0 0.9 0] \<and>
   addPointsToMap (addPointsToMap [mkPoint 0 0 0 0.5 0] [mkPoint (1/64) 0 0 0.9 0])
      [mkPoint (1/64) 0 0 0.9 0] = [mkPoint (1/64) 0 0 0.9 0]"
  using addPointsToMap_twice [of "[mkPoint 0 0 0 0.5 0]" "mkPoint (1/64) 0 0 0.9 0"]
  by (simp add: finitePoint_mkPoint addPointsToMap_def addPoint_def nearbyPoints_one
        bestExisting_def euclideanDistance3D_mkPoint mkPoint_confidence power2_eq_square)

text \<open>
  C7 as stated fails for a point with a coordinate that is NaN or infinite: its
  distance to itself is NaN, the comparison with 0.05 is false, and the second
  insertion appends it again (one point, then two).
\<close>

theorem addPointsToMap_twice_counterexample:
  "length (addPointsToMap [] [(mkPoint 0 0 0 0.9 0)\<lparr>mp_x := NaN\<rparr>]) = 1 \<and>
   length (addPointsToMap (addPointsToMap [] [(mkPoint 0 0 0 0.9 0)\<lparr>mp_x := NaN\<rparr>])
             [(mkPoint 0 0 0 0.9 0)\<lparr>mp_x := NaN\<rparr>]) = 2 \<and>
   length (addPointsToMap [] [(mkPoint 0 0 0 0.9 0)\<lparr>mp_z := PosInf\<rparr>]) = 1 \<and>
   length (addPointsToMap (addPointsToMap [] [(mkPoint 0 0 0 0.9 0)\<lparr>mp_z := PosInf\<rparr>])
             [(mkPoint 0 0 0 0.9 0)\<lparr>mp_z := PosInf\<rparr>]) = 2"
  by (simp add: addPointsToMap_def addPoint_def nearbyPoints_Nil nearbyPoints_one
        euclideanDistance3D_def numSquare_def numSub_def mkPoint_def)

section \<open>Mapping engine, entry point: claims\<close>

text \<open>
  C4. For every processor state that the constructor, \<open>processFrame\<close> and \<open>resetMap\<close>
  can produce, and for all inputs and all readings of the clock and the random
  numbers, after a call of \<open>processFrame\<close> the map has at most 10,000 points, there are
  at most 50 landmarks and the trajectory has at most 1000 samples; the trajectory is
  the previous one with the new sample appended, without its oldest sample when it
  already held 1000.
\<close>

theorem processFrame_bounds:
  assumes "reachable s"
  shows "length (mapPoints (fst (processFrame env imageData depthPoints motionVector s))) \<le> 10000 \<and>
         length (landmarks (fst (processFrame env imageData depthPoints motionVector s))) \<le> 50 \<and>
         length (tr_points (trajectory (fst (processFrame env imageData depthPoints motionVector s))))
           \<le> 1000 \<and>
         (\<exists>sample.
            tr_points (trajectory (fst (processFrame env imageData depthPoints motionVector s))) =
              (if length (tr_points (trajectory s)) < 1000 then tr_points (trajectory s) @ [sample]
               else tl (tr_points (trajectory s)) @ [sample]))"
proof -
  have t: "length (tr_points (trajectory s)) \<le> 1000"
    using reachable_invariant [OF assms] by (simp add: invariant_def)
  have i: "invariant (fst (processFrame env imageData depthPoints motionVector s))"
    by (rule invariant_processFrame [OF t])
  obtain sample where
    s: "tr_points (trajectory (updateTrajectory env (estimateCameraMovement env motionVector) s)) =
     (if length (tr_points (trajectory s)) < 1000 then tr_points (trajectory s) @ [sample]
      else tl (tr_points (trajectory s) @ [sample]))"
    using tr_points_updateTrajectory by blast
  have "tr_points (trajectory (fst (processFrame env imageData depthPoints motionVector s))) =
              (if length (tr_points (trajectory s)) < 1000 then tr_points (trajectory s) @ [sample]
               else tl (tr_points (trajectory s)) @ [sample])"
  proof (cases "length (tr_points (trajectory s)) < 1000")
    case True
    then show ?thesis by (simp add: trajectory_processFrame s)
  next
    case False
    then have "tr_points (trajectory s) \<noteq> []" by auto
    then show ?thesis using False by (simp add: trajectory_processFrame s)
  qed
  then show ?thesis using i unfolding invariant_def by blast
qed

theorem processFrame_bounds_witness:
  "reachable initialProcessor \<and>
   length (mapPoints (fst (processFrame (mkEnv 0) onePixel [mkDepthPoint 0 0 0.5] None initialProcessor)))
     \<le> 10000 \<and>
   length (landmarks (fst (processFrame (mkEnv 0) onePixel [mkDepthPoint 0 0 0.5] None initialProcessor)))
     \<le> 50 \<and>
   length (tr_points (trajectory
     (fst (processFrame (mkEnv 0) onePixel [mkDepthPoint 0 0 0.5] None initialProcessor)))) = 1"
proof -
  note t = processFrame_bounds [OF reachable.constructed, of "mkEnv 0" onePixel
      "[mkDepthPoint 0 0 0.5]" None]
  have "tr_points (trajectory initialProcessor) = []"
    by (simp add: initialProcessor_def)
  with t reachable.constructed show ?thesis by auto
qed

text \<open>
  C3 (as amended). For every reachable processor state, \<open>processFrame\<close> with an empty
  list of depth samples raises no error, inserts no point and creates no landmark: the
  landmark list is unchanged, and the point list is the prior list without the points
  whose age has reached 30 seconds at this call; the snapshot returned is that of the
  new state and its landmarks are those of the prior snapshot. When no prior point has
  reached that age, the point list and the snapshot's points are unchanged as well.
  (Pose and trajectory still advance.)
\<close>

theorem processFrame_empty_depth:
  assumes "reachable s"
  shows "landmarks (fst (processFrame env imageData [] motionVector s)) = landmarks s \<and>
         mapPoints (fst (processFrame env imageData [] motionVector s)) =
           filter (\<lambda>p. env_optimizeTime env - mp_timestamp p < 30000) (mapPoints s) \<and>
         snd (processFrame env imageData [] motionVector s) =
           getCurrentMap (fst (processFrame env imageData [] motionVector s)) \<and>
         sm_landmarks (snd (processFrame env imageData [] motionVector s)) =
           sm_landmarks (getCurrentMap s) \<and>
         ((\<forall>p \<in> set (mapPoints s). env_optimizeTime env - mp_timestamp p < 30000) \<longrightarrow>
            mapPoints (fst (processFrame env imageData [] motionVector s)) = mapPoints s \<and>
            sm_points (snd (processFrame env imageData [] motionVector s)) =
              sm_points (getCurrentMap s))"
proof -
  have i: "invariant s" by (rule reachable_invariant [OF assms])
  note l = landmarks_processFrame_Nil [OF i, of env imageData motionVector]
  note m = mapPoints_processFrame_Nil [OF i, of env imageData motionVector]
  have sl: "sm_landmarks (snd (processFrame env imageData [] motionVector s)) =
           sm_landmarks (getCurrentMap s)"
    by (simp add: snd_processFrame getCurrentMap_def l)
  have u: "mapPoints (fst (processFrame env imageData [] motionVector s)) = mapPoints s"
    if "\<forall>p \<in> set (mapPoints s). env_optimizeTime env - mp_timestamp p < 30000"
    using that by (simp add: m)
  have sp: "sm_points (snd (processFrame env imageData [] motionVector s)) =
              sm_points (getCurrentMap s)"
    if "\<forall>p \<in> set (mapPoints s). env_optimizeTime env - mp_timestamp p < 30000"
    by (simp add: snd_processFrame getCurrentMap_def u [OF that])
  show ?thesis using l m sl u sp snd_processFrame by blast
qed

theorem processFrame_empty_depth_witness:
  "reachable stateWithPoint \<and>
   mapPoints (fst (processFrame (mkEnv 1000) onePixel [] (Some (0, 0, 0)) stateWithPoint)) =
     [mkPoint (- 1 / 2) (1 / 2) (1 / 2) 0.8 0] \<and>
   sm_points (snd (processFrame (mkEnv 1000) onePixel [] (Some (0, 0, 0)) stateWithPoint)) =
     sm_points (getCurrentMap stateWithPoint)"
proof -
  have fresh: "\<forall>p \<in> set (mapPoints stateWithPoint).
                 env_optimizeTime (mkEnv 1000) - mp_timestamp p < 30000"
    by (simp add: stateWithPoint_mapPoints mkEnv_def mkPoint_def)
  note t = processFrame_empty_depth [OF reachable_stateWithPoint, of "mkEnv 1000" onePixel "Some (0, 0, 0)"]
  from t fresh have
    "mapPoints (fst (processFrame (mkEnv 1000) onePixel [] (Some (0, 0, 0)) stateWithPoint)) =
       mapPoints stateWithPoint \<and>
     sm_points (snd (processFrame (mkEnv 1000) onePixel [] (Some (0, 0, 0)) stateWithPoint)) =
       sm_points (getCurrentMap stateWithPoint)"
    by blast
  then show ?thesis
    using reachable_stateWithPoint by (simp add: stateWithPoint_mapPoints)
qed

text \<open>
  C3 as stated fails: a point read at time 0 is in the map after its frame, and a call
  with an empty list of depth samples at time 30000 removes it from the map and from
  the snapshot.
\<close>

theorem processFrame_empty_depth_counterexample:
  "reachable stateWithPoint \<and>
   mapPoints stateWithPoint = [mkPoint (- 1 / 2) (1 / 2) (1 / 2) 0.8 0] \<and>
   mapPoints (fst (processFrame (mkEnv 30000) onePixel [] (Some (0, 0, 0)) stateWithPoint)) = [] \<and>
   sm_points (getCurrentMap stateWithPoint) \<noteq> [] \<and>
   sm_points (snd (processFrame (mkEnv 30000) onePixel [] (Some (0, 0, 0)) stateWithPoint)) = []"
  using reachable_stateWithPoint
  by (simp add: mapPoints_processFrame_Nil [OF reachable_invariant [OF reachable_stateWithPoint]]
        snd_processFrame getCurrentMap_def stateWithPoint_mapPoints mkEnv_def mkPoint_def)

section \<open>Frame enhancer: claims\<close>

text \<open>
  C5. For every frame, the enhancer called with brightness 1, contrast 1, gamma 1,
  noise reduction 0 and edge enhancement 0 returns exactly the thermal remap of the
  input frame, and each of the five stages before the remap is the identity at these
  settings.
\<close>

theorem enhanceNightVision_neutral:
  assumes "wf_frame f"
  shows "enhanceNightVision f neutralSettings = applyThermalEffect f \<and>
         adjustBrightness f 1 = f \<and> adjustContrast f 1 = f \<and> adjustGamma f 1 = f \<and>
         denoiseImage f 0 = f \<and> enhanceEdges f 0 = f"
  by (simp add: enhanceNightVision_def mergeSettings_def neutralSettings_def frame_eta
        adjustBrightness_one adjustContrast_one adjustGamma_one denoiseImage_zero
        enhanceEdges_zero)

theorem enhanceNightVision_neutral_witness:
  "wf_frame ninePixels \<and>
   enhanceNightVision ninePixels neutralSettings = applyThermalEffect ninePixels \<and>
   denoiseImage ninePixels 0 = ninePixels"
  using enhanceNightVision_neutral [OF wf_ninePixels] wf_ninePixels by simp

text \<open>
  C9. For every frame and every settings value, the enhanced frame has the width and
  height of the input and is again a well-formed frame, and the alpha channel of every
  pixel is that of the input pixel: each of the six stages, for every value of its
  parameter, keeps the length of the array and the bytes at the alpha positions, since
  it writes red, green and blue only.
\<close>

theorem enhanceNightVision_alpha:
  assumes "wf_frame f"
  shows "img_width (enhanceNightVision f settings) = img_width f \<and>
         img_height (enhanceNightVision f settings) = img_height f \<and>
         wf_frame (enhanceNightVision f settings) \<and>
         (\<forall>k < img_width f * img_height f.
            img_data (enhanceNightVision f settings) ! (4 * k + 3) = img_data f ! (4 * k + 3)) \<and>
         alphaKept (img_data f) (img_data (adjustBrightness f factor)) \<and>
         alphaKept (img_data f) (img_data (adjustContrast f factor)) \<and>
         alphaKept (img_data f) (img_data (adjustGamma f factor)) \<and>
         alphaKept (img_data f) (img_data (denoiseImage f strength)) \<and>
         alphaKept (img_data f) (img_data (enhanceEdges f strength)) \<and>
         alphaKept (img_data f) (img_data (applyThermalEffect f))"
proof -
  have "img_width (enhanceNightVision f settings) = img_width f \<and>
        img_height (enhanceNightVision f settings) = img_height f \<and>
        wf_frame (enhanceNightVision f settings) \<and>
        (\<forall>k < img_width f * img_height f.
           img_data (enhanceNightVision f settings) ! (4 * k + 3) = img_data f ! (4 * k + 3))"
    using assms alphaKept_enhanceNightVision [of f settings] dims_enhanceNightVision [of f settings]
    by (simp add: alphaKept_def wf_frame_def)
  then show ?thesis
    using alphaKept_adjustBrightness alphaKept_adjustContrast alphaKept_adjustGamma
      alphaKept_denoiseImage alphaKept_enhanceEdges alphaKept_applyThermalEffect
    by blast
qed

theorem enhanceNightVision_alpha_witness:
  "wf_frame ninePixels \<and>
   img_width (enhanceNightVision ninePixels noSettings) = 3 \<and>
   img_height (enhanceNightVision ninePixels noSettings) = 3 \<and>
   img_data (enhanceNightVision ninePixels noSettings) ! (4 * 4 + 3) = 77"
proof -
  note t = enhanceNightVision_alpha [OF wf_ninePixels, of noSettings]
  have "(4::nat) < img_width ninePixels * img_height ninePixels"
    by (simp add: ninePixels_def)
  with t have "img_data (enhanceNightVision ninePixels noSettings) ! (4 * 4 + 3) =
     img_data ninePixels ! (4 * 4 + 3)"
    by blast
  moreover have "img_width ninePixels = 3" "img_height ninePixels = 3"
    by (simp_all add: ninePixels_def)
  ultimately show ?thesis using t wf_ninePixels ninePixels_alpha by simp
qed

section \<open>Map export: claims\<close>

text \<open>
  C8. For a positive session duration, the exported snapshot holds the session duration
  (rounded to whole milliseconds, hence within half a millisecond of it), the frame
  count, the average processing time per frame (rounded; 0 when no frame was
  processed), the points, landmarks and boundaries of the current map, the trajectory
  with the average speed equal to the total distance divided by the duration in
  seconds, and the metadata tag with version 1.0, format SLAM_JSON and coordinate
  system camera_relative.
\<close>

theorem exportMap_snapshot:
  assumes "0 < now - pf_startTime perf"
  shows "si_duration (ex_sessionInfo (exportMap now isoString perf state)) =
           mathRound (now - pf_startTime perf) \<and>
         \<bar>real_of_int (si_duration (ex_sessionInfo (exportMap now isoString perf state)))
            - (now - pf_startTime perf)\<bar> \<le> 1 / 2 \<and>
         si_frameCount (ex_sessionInfo (exportMap now isoString perf state)) = pf_frameCount perf \<and>
         si_avgProcessingTime (ex_sessionInfo (exportMap now isoString perf state)) =
           (if pf_frameCount perf > 0
            then mathRound (pf_totalProcessingTime perf / real (pf_frameCount perf)) else 0) \<and>
         ex_map (exportMap now isoString perf state) = ms_currentMap state \<and>
         et_points (ex_trajectory (exportMap now isoString perf state)) = tr_points (ms_trajectory state) \<and>
         et_totalDistance (ex_trajectory (exportMap now isoString perf state)) =
           tr_totalDistance (ms_trajectory state) \<and>
         et_averageSpeed (ex_trajectory (exportMap now isoString perf state)) =
           tr_totalDistance (ms_trajectory state) / ((now - pf_startTime perf) / 1000) \<and>
         et_averageSpeed (ex_trajectory (exportMap now isoString perf state))
           * ((now - pf_startTime perf) / 1000) = tr_totalDistance (ms_trajectory state) \<and>
         ex_metadata (exportMap now isoString perf state) =
           \<lparr>md_version = ''1.0'', md_format = ''SLAM_JSON'',
            md_coordinateSystem = ''camera_relative''\<rparr>"
proof -
  have r: "\<bar>real_of_int (mathRound x) - x\<bar> \<le> 1 / 2" for x
    unfolding mathRound_def by linarith
  have m: "\<lparr>sm_points = sm_points (ms_currentMap state),
             sm_landmarks = sm_landmarks (ms_currentMap state),
             sm_boundaries = sm_boundaries (ms_currentMap state)\<rparr> = ms_currentMap state"
    by (cases "ms_currentMap state") simp
  show ?thesis
    using assms r [of "now - pf_startTime perf"]
    by (simp add: exportMap_def Let_def m)
qed

theorem exportMap_snapshot_witness:
  "si_duration (ex_sessionInfo (exportMap 2000 ''t''
      \<lparr>pf_frameCount = 4, pf_totalProcessingTime = 10, pf_startTime = 0\<rparr>
      (initialMappingState\<lparr>ms_trajectory :=
         \<lparr>tr_points = [], tr_totalDistance = 3, tr_averageSpeed = 0\<rparr>\<rparr>))) = 2000 \<and>
   si_avgProcessingTime (ex_sessionInfo (exportMap 2000 ''t''
      \<lparr>pf_frameCount = 4, pf_totalProcessingTime = 10, pf_startTime = 0\<rparr>
      (initialMappingState\<lparr>ms_trajectory :=
         \<lparr>tr_points = [], tr_totalDistance = 3, tr_averageSpeed = 0\<rparr>\<rparr>))) = 3 \<and>
   et_averageSpeed (ex_trajectory (exportMap 2000 ''t''
      \<lparr>pf_frameCount = 4, pf_totalProcessingTime = 10, pf_startTime = 0\<rparr>
      (initialMappingState\<lparr>ms_trajectory :=
         \<lparr>tr_points = [], tr_totalDistance = 3, tr_averageSpeed = 0\<rparr>\<rparr>))) = 3 / 2"
  using exportMap_snapshot [of 2000 "\<lparr>pf_frameCount = 4, pf_totalProcessingTime = 10, pf_startTime = 0\<rparr>"
      "''t''" "initialMappingState\<lparr>ms_trajectory :=
         \<lparr>tr_points = [], tr_totalDistance = 3, tr_averageSpeed = 0\<rparr>\<rparr>"]
  by (simp add: mathRound_def initialMappingState_def)


end
